theory Spec2Isabelle
  imports Main
begin

section \<open>JavaScript values used by the Next.js adapter\<close>

text \<open>
  The development embeds \<^verbatim>\<open>src/frameworks/next/index.ts\<close>: the function \<^verbatim>\<open>build\<close>
  (the classification pass), \<^verbatim>\<open>getConfig\<close> and the static materializer
  whose name ends in \<^verbatim>\<open>codegenPublicDirectory\<close>.
  A thrown exception or a rejected promise is the \<open>Inl\<close> branch of a sum.
\<close>

text \<open>
  Modelled from the spec: \<^verbatim>\<open>readJSON\<close> of \<^verbatim>\<open>../utils\<close> is not among the sources. The two
  ways in which it fails, \<open>ManifestMissing\<close> and \<open>ManifestMalformed\<close>, are those of
  section 4.2 of the specification. \<open>FirebaseError\<close>, \<open>JsError\<close> (a plain \<^verbatim>\<open>Error\<close>),
  \<open>TypeError\<close> and \<open>SyntaxError\<close> are thrown by \<^verbatim>\<open>index.ts\<close> or by the language;
  \<open>Thrown\<close> is any other error of a collaborator.
\<close>

datatype error =
    FirebaseError string
  | JsError string
  | TypeError string
  | SyntaxError string
  | ManifestMissing
  | ManifestMalformed
  | Thrown string

text \<open>
  \<open>await m f\<close> runs \<open>f\<close> on the value of \<open>m\<close>, or stops with the error of \<open>m\<close>: a
  statement of the source followed by the rest of the function body.
\<close>

definition await :: "error + 'a \<Rightarrow> ('a \<Rightarrow> error + 'b) \<Rightarrow> error + 'b" where
  "await m f = (case m of Inl e \<Rightarrow> Inl e | Inr x \<Rightarrow> f x)"

text \<open>\<^verbatim>\<open>promise.catch(() => undefined)\<close>: every failure becomes \<open>undefined\<close>.\<close>

definition catch_undefined :: "error + 'a \<Rightarrow> 'a option" where
  "catch_undefined m = (case m of Inl e \<Rightarrow> None | Inr x \<Rightarrow> Some x)"

text \<open>JSON data that this file hands over to helpers without reading it.\<close>

datatype json =
    JNull
  | JBool bool
  | JNumber int
  | JString string
  | JArray "json list"
  | JObject "(string \<times> json) list"

text \<open>
  An object with string keys is an association list in insertion order
  (\<^verbatim>\<open>Object.entries\<close> is the list itself); the keys of an object are distinct.
  Keys that are array indices, which JavaScript lists first, do not occur: the keys
  here are route paths and names of environment variables.
  \<open>obj_set\<close> is the assignment \<^verbatim>\<open>obj[k] = v\<close>, \<open>spread a b\<close> is \<^verbatim>\<open>{...a, ...b}\<close>.
\<close>

type_synonym 'v obj = "(string \<times> 'v) list"

definition keys :: "'v obj \<Rightarrow> string list" where
  "keys obj = map fst obj"

fun obj_set :: "string \<Rightarrow> 'v \<Rightarrow> 'v obj \<Rightarrow> 'v obj" where
  "obj_set k v [] = [(k, v)]"
| "obj_set k v ((k', v') # rest) =
     (if k' = k then (k, v) # rest else (k', v') # obj_set k v rest)"

definition spread :: "'v obj \<Rightarrow> 'v obj \<Rightarrow> 'v obj" where
  "spread a b = fold (\<lambda>(k, v). obj_set k v) b a"

definition fromEntries :: "(string \<times> 'v) list \<Rightarrow> 'v obj" where
  "fromEntries es = spread [] es"

text \<open>Truthiness of a value that is a string, \<open>null\<close> or \<open>undefined\<close>.\<close>

definition truthy :: "string option \<Rightarrow> bool" where
  "truthy s = (case s of None \<Rightarrow> False | Some v \<Rightarrow> v \<noteq> [])"

text \<open>A value of that kind inside a template literal.\<close>

definition template :: "string option \<Rightarrow> string" where
  "template s = (case s of None \<Rightarrow> ''null'' | Some v \<Rightarrow> v)"

text \<open>
  A JavaScript \<^verbatim>\<open>Set\<close> of strings: the list of its elements in insertion order.
\<close>

definition Set_add :: "string \<Rightarrow> string list \<Rightarrow> string list" where
  "Set_add x s = (if x \<in> set s then s else s @ [x])"

definition Set_has :: "string \<Rightarrow> string list \<Rightarrow> bool" where
  "Set_has x s = (x \<in> set s)"

definition Set_delete :: "string \<Rightarrow> string list \<Rightarrow> string list" where
  "Set_delete x s = removeAll x s"

definition Set_size :: "string list \<Rightarrow> nat" where
  "Set_size s = length s"

text \<open>\<^verbatim>\<open>if (c) s.add(x);\<close>\<close>

definition addIf :: "bool \<Rightarrow> string \<Rightarrow> string list \<Rightarrow> string list" where
  "addIf c x s = (if c then Set_add x s else s)"

text \<open>Decimal digits of a number inside a template literal.\<close>

fun show_nat :: "nat \<Rightarrow> string" where
  "show_nat n =
     (if n < 10 then [char_of (48 + n)]
      else show_nat (n div 10) @ [char_of (48 + n mod 10)])"

section \<open>Manifests and configuration\<close>

datatype revalidate = RevalidateFalse | RevalidateSeconds int

fun revalidates :: "revalidate \<Rightarrow> bool" where
  "revalidates RevalidateFalse = False"
| "revalidates (RevalidateSeconds n) = (n \<noteq> 0)"

record prerender_route =
  srcRoute :: "string option"
  initialRevalidateSeconds :: revalidate
  dataRoute :: "string option"
  experimentalPPR :: bool
  prefetchDataRoute :: "string option"

datatype fallback_value = FallbackFalse | FallbackNull | FallbackTrue | FallbackString string

record dynamic_route =
  fallback :: fallback_value

record prerender_manifest =
  routes :: "prerender_route obj"
  dynamicRoutes :: "dynamic_route obj option"

text \<open>
  The rules of the routes manifest. The fields are those \<^verbatim>\<open>index.ts\<close> reads; what else
  a rule carries (\<^verbatim>\<open>has\<close>, \<^verbatim>\<open>missing\<close>, \<^verbatim>\<open>locale\<close>, ...) is kept as JSON for the
  predicates of \<^verbatim>\<open>./utils\<close>.
\<close>

record header_rule =
  h_source :: string
  h_headers :: "(string \<times> string) list"
  h_regex :: string
  h_rest :: json

record redirect_rule =
  r_source :: string
  r_destination :: string
  r_statusCode :: "int option"
  r_internal :: bool
  r_regex :: string
  r_rest :: json

record rewrite_rule =
  w_source :: string
  w_destination :: string
  w_regex :: string
  w_rest :: json

datatype rewrites_field =
    RewritesArray "rewrite_rule list"
  | RewritesObject (beforeFiles: "rewrite_rule list option")
      (afterFiles: "rewrite_rule list option") (fallbackRewrites: "rewrite_rule list option")

record domain_locale =
  domain :: string
  d_defaultLocale :: string
  d_locales :: "string list option"

record i18n_config =
  locales :: "string list"
  defaultLocale :: string
  domains :: "domain_locale list option"

record routes_manifest =
  rm_headers :: "header_rule list option"
  rm_redirects :: "redirect_rule list option"
  rm_rewrites :: "rewrites_field option"
  rm_i18n :: "i18n_config option"

record action_manifest =
  node :: "json obj"
  edge :: "json obj"
  encryptionKey :: string

record next_config =
  nc_distDir :: "string option"
  nc_trailingSlash :: "bool option"
  nc_basePath :: "string option"
  nc_i18n :: "i18n_config option"

record config =
  distDir :: string
  cfg_trailingSlash :: bool
  basePath :: string
  cfg_i18n :: "i18n_config option"

record framework_context =
  projectId :: "string option"
  site :: "string option"
  hostingChannel :: "string option"

record hosting_header =
  source :: string
  headers_of :: "(string \<times> string) list"

record hosting_redirect =
  rd_source :: string
  rd_destination :: string
  rd_type :: "int option"

record hosting_rewrite =
  rw_source :: string
  rw_destination :: string

record build_result =
  wantsBackend :: bool
  headers :: "hosting_header list"
  redirects :: "hosting_redirect list"
  hosting_rewrites :: "hosting_rewrite list"
  trailingSlash :: bool
  i18n :: bool
  baseUrl :: string

datatype log_entry = Info string | Debug string | ConsoleError string

datatype child_end = ChildError string | ChildExit int

record child_process =
  child_output :: "string list"
  ending :: child_end

section \<open>Collaborators outside \<^verbatim>\<open>index.ts\<close>\<close>

text \<open>
  \<^verbatim>\<open>index.ts\<close> imports its helpers from \<^verbatim>\<open>./utils\<close>, \<^verbatim>\<open>../utils\<close>,
  \<^verbatim>\<open>../constants\<close>, \<^verbatim>\<open>semver\<close> and Node's \<^verbatim>\<open>path\<close>. The pure ones are the fields of
  \<open>utils\<close>: every theorem below holds for whatever functions stand there. A regular
  expression is kept as its source text; \<open>newRegExp\<close> is the error of its constructor
  and \<open>matches p r\<close> is \<^verbatim>\<open>p.match(r)\<close> being non-null.
\<close>

record utils =
  cleanEscapedChars :: "string \<Rightarrow> string"
  cleanI18n_header :: "header_rule \<Rightarrow> header_rule"
  cleanI18n_redirect :: "redirect_rule \<Rightarrow> redirect_rule"
  cleanI18n_rewrite :: "rewrite_rule \<Rightarrow> rewrite_rule"
  isHeaderSupportedByHosting :: "header_rule \<Rightarrow> bool"
  isRedirectSupportedByHosting :: "redirect_rule \<Rightarrow> bool"
  isRewriteSupportedByHosting :: "rewrite_rule \<Rightarrow> bool"
  getNextjsRewritesToUse :: "rewrites_field \<Rightarrow> rewrite_rule list"
  getNonStaticRoutes :: "string obj \<Rightarrow> string list \<Rightarrow> string list \<Rightarrow> string list"
  getNonStaticServerComponents ::
    "string obj \<Rightarrow> string obj \<Rightarrow> string list \<Rightarrow> string list \<Rightarrow> string list"
  getRoutesWithServerAction :: "action_manifest \<Rightarrow> string obj \<Rightarrow> string list"
  getMiddlewareMatcherRegexes :: "json \<Rightarrow> string list"
  validateLocales :: "string list option \<Rightarrow> error option"
  parseStrict :: "string \<Rightarrow> error + string obj"
  gte :: "string \<Rightarrow> string \<Rightarrow> bool"
  join :: "string list \<Rightarrow> string"
  basename :: "string \<Rightarrow> string"
  dirname :: "string \<Rightarrow> string"
  newRegExp :: "string \<Rightarrow> error option"
  matches :: "string \<Rightarrow> string \<Rightarrow> bool"
  I18N_ROOT :: string

text \<open>
  The outside world: each field is the outcome of one call that reads the file system,
  the network or the child process. A field that is a function takes the arguments
  of the call that the source computes.
\<close>

record world =
  warnIfCustomBuildScript :: "error + unit"
  getReactVersion :: "string option"
  process_env :: "string obj"
  pathExists_projectEnv :: "string \<Rightarrow> error + bool"
  readFile_projectEnv :: "string \<Rightarrow> error + string"
  getDeploymentDomain :: "string \<Rightarrow> string \<Rightarrow> string option \<Rightarrow> error + string option"
  getNodeModuleBin :: "error + string"
  spawn :: "string \<Rightarrow> string obj \<Rightarrow> child_process"
  whichNextConfigFile :: "error + string option"
  getNextVersion :: "string option"
  loadConfig :: "error + next_config"
  importConfig :: "error + next_config"
  isUsingMiddleware :: "error + bool"
  isUsingImageOptimization :: "error + bool"
  readPrerenderManifest :: "error + prerender_manifest"
  readPagesManifest :: "error + string obj"
  readRoutesManifest :: "error + routes_manifest"
  readAppPathsManifest :: "error + string obj"
  readAppPathRoutesManifest :: "error + string obj"
  readServerReferenceManifest :: "error + action_manifest"
  readMiddlewareManifest :: "error + json"
  getAppMetadataFromMetaFiles ::
    "string \<Rightarrow> string \<Rightarrow> string obj \<Rightarrow> error + (hosting_header list \<times> string list)"
  hasStaticAppNotFoundComponent :: "error + bool"
  getAllSiteDomains :: "string \<Rightarrow> string \<Rightarrow> error + string list"
  mkdir :: "string \<Rightarrow> error option"
  copy :: "string \<Rightarrow> string \<Rightarrow> error option"
  copyFile :: "string \<Rightarrow> string \<Rightarrow> error option"
  pathExists :: "string \<Rightarrow> error + bool"
  fileExistsSync :: "string \<Rightarrow> bool"
  pathExistsSync :: "string \<Rightarrow> bool"

section \<open>\<^verbatim>\<open>getConfig\<close> (lines 748-778)\<close>

definition getConfig :: "utils \<Rightarrow> world \<Rightarrow> error + config" where
  "getConfig u w =
     await (whichNextConfigFile w) (\<lambda>configFile.
     await
       (case configFile of
          None \<Rightarrow> Inr \<lparr>nc_distDir = None, nc_trailingSlash = None, nc_basePath = None,
                       nc_i18n = None\<rparr>
        | Some file \<Rightarrow>
            if file = [] then
              Inr \<lparr>nc_distDir = None, nc_trailingSlash = None, nc_basePath = None,
                    nc_i18n = None\<rparr>
            else
              (case getNextVersion w of
                 None \<Rightarrow> Inl (JsError ''Unable to find the next dep, try NPM installing?'')
               | Some version \<Rightarrow>
                   if version = [] then
                     Inl (JsError ''Unable to find the next dep, try NPM installing?'')
                   else if gte u version ''12.0.0'' then loadConfig w
                   else
                     (case importConfig w of
                        Inl e \<Rightarrow> Inl (JsError (''Unable to load '' @ file @ ''.''))
                      | Inr c \<Rightarrow> Inr c)))
       (\<lambda>c.
     case validateLocales u (map_option locales (nc_i18n c)) of
       Some e \<Rightarrow> Inl e
     | None \<Rightarrow>
         Inr \<lparr>distDir = (case nc_distDir c of None \<Rightarrow> ''.next'' | Some d \<Rightarrow> d),
               cfg_trailingSlash = (case nc_trailingSlash c of None \<Rightarrow> False | Some t \<Rightarrow> t),
               basePath = (case nc_basePath c of None \<Rightarrow> ''/'' | Some b \<Rightarrow> b),
               cfg_i18n = nc_i18n c\<rparr>))"

section \<open>\<^verbatim>\<open>build\<close> (lines 117-374)\<close>

definition DEFAULT_NUMBER_OF_REASONS_TO_LIST :: nat where
  "DEFAULT_NUMBER_OF_REASONS_TO_LIST = 5"

text \<open>\<^verbatim>\<open>context?.projectId\<close> and its siblings.\<close>

definition ctx_projectId :: "framework_context option \<Rightarrow> string option" where
  "ctx_projectId c = (case c of None \<Rightarrow> None | Some x \<Rightarrow> projectId x)"

definition ctx_site :: "framework_context option \<Rightarrow> string option" where
  "ctx_site c = (case c of None \<Rightarrow> None | Some x \<Rightarrow> site x)"

definition ctx_hostingChannel :: "framework_context option \<Rightarrow> string option" where
  "ctx_hostingChannel c = (case c of None \<Rightarrow> None | Some x \<Rightarrow> hostingChannel x)"

text \<open>
  Lines 122-159: the environment of the child process and the path of the \<^verbatim>\<open>next\<close>
  binary. \<open>processEnv\<close> is \<^verbatim>\<open>process.env\<close> after line 127.
\<close>

definition processEnv :: "utils \<Rightarrow> world \<Rightarrow> string obj" where
  "processEnv u w =
     (case getReactVersion w of
        None \<Rightarrow> process_env w
      | Some reactVersion \<Rightarrow>
          if reactVersion \<noteq> [] \<and> gte u reactVersion ''18.0.0''
          then obj_set ''__NEXT_REACT_ROOT'' ''true'' (process_env w)
          else process_env w)"

definition prepareBuild ::
  "utils \<Rightarrow> world \<Rightarrow> framework_context option \<Rightarrow> error + (string \<times> string obj)" where
  "prepareBuild u w ctx =
     await (warnIfCustomBuildScript w) (\<lambda>_.
     let env = processEnv u w in
     await
       (case ctx_projectId ctx of
          None \<Rightarrow> Inr env
        | Some pid \<Rightarrow>
            if pid = [] then Inr env
            else
              await (pathExists_projectEnv w pid) (\<lambda>ex.
              if ex then
                await (readFile_projectEnv w pid) (\<lambda>text.
                await (parseStrict u text) (\<lambda>projectEnvVars.
                Inr (spread projectEnvVars env)))
              else Inr env))
       (\<lambda>env.
     await
       (case (ctx_projectId ctx, ctx_site ctx) of
          (Some pid, Some st) \<Rightarrow>
            if pid \<noteq> [] \<and> st \<noteq> [] then
              await (getDeploymentDomain w pid st (ctx_hostingChannel ctx)) (\<lambda>deploymentDomain.
              Inr (if truthy deploymentDomain
                   then obj_set ''VERCEL_URL'' (template deploymentDomain) env else env))
            else Inr env
        | _ \<Rightarrow> Inr env)
       (\<lambda>env.
     await (getNodeModuleBin w) (\<lambda>cli.
     Inr (cli, env)))))"

text \<open>Lines 189-205: the reasons read off the prerender manifest.\<close>

definition fallbackReasons :: "prerender_manifest \<Rightarrow> string list \<Rightarrow> string list" where
  "fallbackReasons prerenderManifest reasonsForBackend =
     (let dynamicRoutesWithFallback =
            filter (\<lambda>(key, it). fallback it \<noteq> FallbackFalse)
              (case dynamicRoutes prerenderManifest of None \<Rightarrow> [] | Some d \<Rightarrow> d)
      in fold (\<lambda>(key, it). Set_add (''use of fallback '' @ key))
           dynamicRoutesWithFallback reasonsForBackend)"

definition revalidateReasons :: "prerender_manifest \<Rightarrow> string list \<Rightarrow> string list" where
  "revalidateReasons prerenderManifest reasonsForBackend =
     (let routesWithRevalidate =
            filter (\<lambda>(key, it). revalidates (initialRevalidateSeconds it))
              (routes prerenderManifest)
      in fold (\<lambda>(key, it). Set_add (''use of revalidate '' @ template (srcRoute it)))
           routesWithRevalidate reasonsForBackend)"

text \<open>
  Lines 254-297: the app directory. The three manifests are those of lines 242-252,
  \<open>None\<close> where the read failed. The result is the header list and the reasons.
\<close>

definition appDirectory ::
  "utils \<Rightarrow> world \<Rightarrow> config \<Rightarrow> string obj option \<Rightarrow> string obj option \<Rightarrow>
   action_manifest option \<Rightarrow> string list \<Rightarrow> string list \<Rightarrow> hosting_header list \<Rightarrow>
   string list \<Rightarrow> error + (hosting_header list \<times> string list)" where
  "appDirectory u w cfg appPathsManifest appPathRoutesManifest serverReferenceManifest
       prerenderedRoutes dynRoutes hdrs reasonsForBackend =
     (case appPathRoutesManifest of
        None \<Rightarrow> Inr (hdrs, reasonsForBackend)
      | Some aprm \<Rightarrow>
          await (getAppMetadataFromMetaFiles w (distDir cfg) (basePath cfg) aprm)
            (\<lambda>(headersFromMetaFiles, pprRoutes).
          let hdrs = hdrs @ headersFromMetaFiles;
              reasonsForBackend =
                fold (\<lambda>route. Set_add (''route with PPR '' @ route)) pprRoutes reasonsForBackend
          in
          await
            (case appPathsManifest of
               None \<Rightarrow> Inr reasonsForBackend
             | Some apm \<Rightarrow>
                 let unrenderedServerComponents =
                       getNonStaticServerComponents u apm aprm prerenderedRoutes dynRoutes;
                     notFoundPageKey =
                       find (\<lambda>key. Set_has key unrenderedServerComponents)
                         [''/_not-found'', ''/_not-found/page'']
                 in
                 await
                   (case notFoundPageKey of
                      None \<Rightarrow> Inr unrenderedServerComponents
                    | Some key \<Rightarrow>
                        await (hasStaticAppNotFoundComponent w) (\<lambda>static.
                        Inr (if static then Set_delete key unrenderedServerComponents
                             else unrenderedServerComponents)))
                   (\<lambda>unrenderedServerComponents.
                 Inr (fold (\<lambda>key. Set_add (''non-static component '' @ key))
                        unrenderedServerComponents reasonsForBackend)))
            (\<lambda>reasonsForBackend.
          Inr (hdrs,
               case serverReferenceManifest of
                 None \<Rightarrow> reasonsForBackend
               | Some srm \<Rightarrow>
                   fold (\<lambda>key. Set_add (''route with server action '' @ key))
                     (getRoutesWithServerAction u srm aprm) reasonsForBackend))))"

text \<open>Lines 319-324: the object form of the rewrites with after-files or fallback rules.\<close>

definition hasAfterFilesOrFallback :: "rewrites_field \<Rightarrow> bool" where
  "hasAfterFilesOrFallback rw =
     (case rw of
        RewritesArray rs \<Rightarrow> False
      | RewritesObject bf af fb \<Rightarrow>
          (case af of None \<Rightarrow> False | Some xs \<Rightarrow> xs \<noteq> []) \<or>
          (case fb of None \<Rightarrow> False | Some xs \<Rightarrow> xs \<noteq> []))"

text \<open>
  Lines 174-338 and 363-373: the classification pass. The result is the set of reasons
  as it stands at line 340, and the value that \<^verbatim>\<open>build\<close> returns.
\<close>

definition classify :: "utils \<Rightarrow> world \<Rightarrow> error + (string list \<times> build_result)" where
  "classify u w =
     await (getConfig u w) (\<lambda>cfg.
     await (isUsingMiddleware w) (\<lambda>usingMiddleware.
     let reasonsForBackend = addIf usingMiddleware ''middleware'' [] in
     await (isUsingImageOptimization w) (\<lambda>usingImageOptimization.
     let reasonsForBackend =
           addIf usingImageOptimization ''Image Optimization'' reasonsForBackend
     in
     await (readPrerenderManifest w) (\<lambda>prerenderManifest.
     let reasonsForBackend = fallbackReasons prerenderManifest reasonsForBackend;
         reasonsForBackend = revalidateReasons prerenderManifest reasonsForBackend
     in
     await (readPagesManifest w) (\<lambda>pagesManifestJSON.
     let prerenderedRoutes = keys (routes prerenderManifest) in
     await
       (case dynamicRoutes prerenderManifest of
          None \<Rightarrow> Inl (TypeError ''Cannot convert undefined or null to object'')
        | Some d \<Rightarrow> Inr (keys d))
       (\<lambda>dynRoutes.
     let unrenderedPages = getNonStaticRoutes u pagesManifestJSON prerenderedRoutes dynRoutes;
         reasonsForBackend =
           fold (\<lambda>key. Set_add (''non-static route '' @ key)) unrenderedPages reasonsForBackend
     in
     await (readRoutesManifest w) (\<lambda>manifest.
     let nextJsHeaders = (case rm_headers manifest of None \<Rightarrow> [] | Some hs \<Rightarrow> hs);
         nextJsRedirects = (case rm_redirects manifest of None \<Rightarrow> [] | Some rs \<Rightarrow> rs);
         nextJsRewrites =
           (case rm_rewrites manifest of None \<Rightarrow> RewritesArray [] | Some rw \<Rightarrow> rw);
         nextjsI18n = rm_i18n manifest;
         isEveryHeaderSupported =
           list_all (isHeaderSupportedByHosting u) (map (cleanI18n_header u) nextJsHeaders);
         reasonsForBackend =
           addIf (\<not> isEveryHeaderSupported) ''advanced headers'' reasonsForBackend;
         hdrs =
           map (\<lambda>h. \<lparr>source = cleanEscapedChars u (h_source h), headers_of = h_headers h\<rparr>)
             (filter (isHeaderSupportedByHosting u) (map (cleanI18n_header u) nextJsHeaders));
         appPathsManifest = catch_undefined (readAppPathsManifest w);
         appPathRoutesManifest = catch_undefined (readAppPathRoutesManifest w);
         serverReferenceManifest = catch_undefined (readServerReferenceManifest w)
     in
     await
       (appDirectory u w cfg appPathsManifest appPathRoutesManifest serverReferenceManifest
          prerenderedRoutes dynRoutes hdrs reasonsForBackend)
       (\<lambda>(hdrs, reasonsForBackend).
     let isEveryRedirectSupported =
           list_all (isRedirectSupportedByHosting u)
             (filter (\<lambda>it. \<not> r_internal it) nextJsRedirects);
         reasonsForBackend =
           addIf (\<not> isEveryRedirectSupported) ''advanced redirects'' reasonsForBackend;
         rds =
           map (\<lambda>r. \<lparr>rd_source = cleanEscapedChars u (r_source r),
                      rd_destination = r_destination r, rd_type = r_statusCode r\<rparr>)
             (filter (isRedirectSupportedByHosting u)
                (map (cleanI18n_redirect u) nextJsRedirects));
         nextJsRewritesToUse = getNextjsRewritesToUse u nextJsRewrites;
         reasonsForBackend =
           addIf (hasAfterFilesOrFallback nextJsRewrites) ''advanced rewrites''
             reasonsForBackend;
         isEveryRewriteSupported =
           list_all (isRewriteSupportedByHosting u) nextJsRewritesToUse;
         reasonsForBackend =
           addIf (\<not> isEveryRewriteSupported) ''advanced rewrites'' reasonsForBackend;
         rws =
           map (\<lambda>r. \<lparr>rw_source = cleanEscapedChars u (w_source r),
                      rw_destination = w_destination r\<rparr>)
             (map (cleanI18n_rewrite u)
                (filter (isRewriteSupportedByHosting u) nextJsRewritesToUse));
         wants = (Set_size reasonsForBackend > 0)
     in
     Inr (reasonsForBackend,
          \<lparr>wantsBackend = wants, headers = hdrs, redirects = rds, hosting_rewrites = rws,
           trailingSlash = cfg_trailingSlash cfg, i18n = (nextjsI18n \<noteq> None),
           baseUrl = basePath cfg\<rparr>)))))))))"

text \<open>
  Lines 342-361: what is shown of the reasons. \<open>limit\<close> is the number of reasons listed
  at level info; \<open>debugging\<close> is \<^verbatim>\<open>process.env.DEBUG\<close> being truthy.
\<close>

definition bullet :: string where
  "bullet = [CHR '' '', CHR 0xE2, CHR 0x80, CHR 0xA2, CHR '' '']"

definition listReasons :: "nat \<Rightarrow> bool \<Rightarrow> string list \<Rightarrow> log_entry list" where
  "listReasons limit debugging reasonsForBackend =
     (if Set_size reasonsForBackend > 0 then
        [Info ''Building a Cloud Function to run this application. This is needed due to:'']
        @ map (\<lambda>reason. Info (bullet @ reason)) (take limit reasonsForBackend)
        @ map (\<lambda>reason. Debug (bullet @ reason)) (drop limit reasonsForBackend)
        @ (if Set_size reasonsForBackend > limit \<and> \<not> debugging
           then [Info (bullet @ ''and '' @ show_nat (Set_size reasonsForBackend - limit)
                       @ '' other reasons, use --debug to see more'')]
           else [])
        @ [Info []]
      else [])"

text \<open>
  The whole of \<^verbatim>\<open>build\<close>: the log written and the value returned or the error thrown.
  The child's output is logged as it comes; the promise of lines 161-171 is rejected by
  the child's \<^verbatim>\<open>error\<close> event and resolved by its \<^verbatim>\<open>exit\<close> event, whatever the code.
\<close>

definition build_listing ::
  "nat \<Rightarrow> utils \<Rightarrow> world \<Rightarrow> framework_context option \<Rightarrow>
   log_entry list \<times> (error + build_result)" where
  "build_listing limit u w ctx =
     (case prepareBuild u w ctx of
        Inl e \<Rightarrow> ([], Inl e)
      | Inr (cli, env) \<Rightarrow>
          let buildProcess = spawn w cli env;
              logged = map Info (child_output buildProcess)
          in
          (case ending buildProcess of
             ChildError err \<Rightarrow>
               (logged, Inl (FirebaseError (''Unable to build your Next.js app: '' @ err)))
           | ChildExit code \<Rightarrow>
               (case classify u w of
                  Inl e \<Rightarrow> (logged, Inl e)
                | Inr (reasonsForBackend, result) \<Rightarrow>
                    (logged @
                       listReasons limit (truthy (map_of (processEnv u w) ''DEBUG''))
                         reasonsForBackend,
                     Inr result))))"

definition build ::
  "utils \<Rightarrow> world \<Rightarrow> framework_context option \<Rightarrow> log_entry list \<times> (error + build_result)" where
  "build u w ctx = build_listing DEFAULT_NUMBER_OF_REASONS_TO_LIST u w ctx"

section \<open>The static materializer (lines 398-587)\<close>

text \<open>\<^verbatim>\<open>s.split(c)\<close> for a one-character separator, and \<^verbatim>\<open>s.endsWith(t)\<close>.\<close>

fun str_split :: "char \<Rightarrow> string \<Rightarrow> string list" where
  "str_split c [] = [[]]"
| "str_split c (x # xs) =
     (if x = c then [] # str_split c xs
      else (case str_split c xs of [] \<Rightarrow> [[x]] | y # ys \<Rightarrow> (x # y) # ys))"

definition endsWith :: "string \<Rightarrow> string \<Rightarrow> bool" where
  "endsWith s t = (length t \<le> length s \<and> drop (length s - length t) s = t)"

text \<open>
  What the closure of lines 503-585 reads from the enclosing function.
\<close>

record captured =
  sourceDir :: string
  destDir :: string
  c_distDir :: string
  c_basePath :: string
  c_i18n :: "i18n_config option"
  matchingI18nDomain :: "domain_locale option"
  singleLocaleDomain :: bool
  pathsUsingsFeaturesNotSupportedByHosting :: "string list"
  staticRoutesUsingServerActions :: "string list"
  appPathRoutesEntries :: "string obj"
  pprRoutes :: "string list"

text \<open>
  What one run of the closure did: its log lines, the \<^verbatim>\<open>copyFile\<close> calls that
  completed (page artifact or data artifact, source, destination) and the error that
  rejected its promise, if any.
\<close>

datatype artifact = Page | Data

record route_outcome =
  route_log :: "log_entry list"
  copied :: "(artifact \<times> string \<times> string) list"
  rejected :: "error option"

definition skipped :: "log_entry \<Rightarrow> route_outcome" where
  "skipped entry = \<lparr>route_log = [entry], copied = [], rejected = None\<rparr>"

text \<open>
  \<^verbatim>\<open>await mkdir(dirname(dest), { recursive: true }); await copyFile(src, dest);\<close>
  after the steps that led to \<open>acc\<close>.
\<close>

definition thenCopy ::
  "utils \<Rightarrow> world \<Rightarrow> artifact \<Rightarrow> string \<Rightarrow> string \<Rightarrow> route_outcome \<Rightarrow> route_outcome" where
  "thenCopy u w kind src dest acc =
     (case rejected acc of
        Some e \<Rightarrow> acc
      | None \<Rightarrow>
          (case mkdir w (dirname u dest) of
             Some e \<Rightarrow> acc\<lparr>rejected := Some e\<rparr>
           | None \<Rightarrow>
               (case copyFile w src dest of
                  Some e \<Rightarrow> acc\<lparr>rejected := Some e\<rparr>
                | None \<Rightarrow> acc\<lparr>copied := copied acc @ [(kind, src, dest)]\<rparr>)))"

text \<open>\<^verbatim>\<open>if (p) p += ext\<close> for a destination that is a string or falsy.\<close>

definition extended :: "string \<Rightarrow> string option \<Rightarrow> string option" where
  "extended ext p = (if truthy p then map_option (\<lambda>s. s @ ext) p else p)"

text \<open>Lines 519-520: the key of the app-path route that renders \<open>srcRoute\<close>, if truthy.\<close>

definition appPathRouteOf :: "captured \<Rightarrow> prerender_route \<Rightarrow> string option" where
  "appPathRouteOf c route =
     (if truthy (srcRoute route) then
        (case find (\<lambda>(key, it). Some it = srcRoute route) (appPathRoutesEntries c) of
           None \<Rightarrow> None
         | Some (key, it) \<Rightarrow> if key = [] then None else Some key)
      else None)"

text \<open>Lines 523-530: the locale of a path and whether this domain serves it.\<close>

definition sourcePartsOf :: "string \<Rightarrow> string list" where
  "sourcePartsOf path = filter (\<lambda>it. it \<noteq> []) (str_split CHR ''/'' path)"

definition localeOf :: "captured \<Rightarrow> string \<Rightarrow> string option" where
  "localeOf c path =
     (case c_i18n c of
        None \<Rightarrow> None
      | Some i \<Rightarrow>
          (case sourcePartsOf path of
             [] \<Rightarrow> None
           | first # others \<Rightarrow> if first \<in> set (locales i) then Some first else None))"

definition includeOnThisDomain :: "captured \<Rightarrow> string \<Rightarrow> bool" where
  "includeOnThisDomain c path =
     (case localeOf c path of
        None \<Rightarrow> True
      | Some locale \<Rightarrow>
          (case matchingI18nDomain c of
             None \<Rightarrow> True
           | Some d \<Rightarrow>
               d_defaultLocale d = locale \<or>
               (case d_locales d of None \<Rightarrow> True | Some ls \<Rightarrow> locale \<in> set ls)))"

definition isDefaultLocale :: "captured \<Rightarrow> string \<Rightarrow> bool" where
  "isDefaultLocale c path =
     (case localeOf c path of
        None \<Rightarrow> True
      | Some locale \<Rightarrow>
          (case matchingI18nDomain c of
             Some d \<Rightarrow> d_defaultLocale d = locale
           | None \<Rightarrow>
               (case c_i18n c of None \<Rightarrow> False | Some i \<Rightarrow> defaultLocale i = locale)))"

definition destPartsOrIndex :: "captured \<Rightarrow> string \<Rightarrow> string list" where
  "destPartsOrIndex c path =
     (let destParts =
            drop (if localeOf c path \<noteq> None then 1 else 0) (sourcePartsOf path)
      in if destParts \<noteq> [] then destParts else [''index''])"

definition sourcePartsOrIndex :: "string \<Rightarrow> string list" where
  "sourcePartsOrIndex path =
     (if sourcePartsOf path \<noteq> [] then sourcePartsOf path else [''index''])"

definition localizedDestPath :: "utils \<Rightarrow> captured \<Rightarrow> string \<Rightarrow> string option" where
  "localizedDestPath u c path =
     (if \<not> singleLocaleDomain c then
        (case localeOf c path of
           None \<Rightarrow> None
         | Some locale \<Rightarrow>
             Some (join u ([destDir c, I18N_ROOT u, locale, c_basePath c]
                           @ destPartsOrIndex c path)))
      else None)"

definition defaultDestPath :: "utils \<Rightarrow> captured \<Rightarrow> string \<Rightarrow> string option" where
  "defaultDestPath u c path =
     (if isDefaultLocale c path
      then Some (join u ([destDir c, c_basePath c] @ destPartsOrIndex c path))
      else None)"

text \<open>Lines 521 and 542: where the artifact of a route is looked for.\<close>

definition contentDistOf :: "utils \<Rightarrow> captured \<Rightarrow> prerender_route \<Rightarrow> string" where
  "contentDistOf u c route =
     join u [sourceDir c, c_distDir c, ''server'',
             if appPathRouteOf c route \<noteq> None then ''app'' else ''pages'']"

definition sourcePathOf :: "utils \<Rightarrow> captured \<Rightarrow> string \<Rightarrow> prerender_route \<Rightarrow> string" where
  "sourcePathOf u c path route = join u (contentDistOf u c route # sourcePartsOrIndex path)"

text \<open>Lines 569-584: the copies, once the source file is found.\<close>

definition copyArtifacts ::
  "utils \<Rightarrow> world \<Rightarrow> captured \<Rightarrow> string \<Rightarrow> prerender_route \<Rightarrow> string \<Rightarrow>
   string option \<Rightarrow> string option \<Rightarrow> route_outcome" where
  "copyArtifacts u w c path route sourcePath localized dflt =
     (let appPathRoute = appPathRouteOf c route;
          contentDist = contentDistOf u c route;
          acc = \<lparr>route_log = [], copied = [], rejected = None\<rparr>;
          acc = (if truthy localized
                 then thenCopy u w Page sourcePath (template localized) acc else acc);
          acc = (if truthy dflt
                 then thenCopy u w Page sourcePath (template dflt) acc else acc)
      in
      if truthy (dataRoute route) \<and> appPathRoute = None then
        (let dataSourcePath = join u (sourcePartsOrIndex path) @ ''.json'';
             dataDestPath = join u [destDir c, c_basePath c, template (dataRoute route)]
         in thenCopy u w Data (join u [contentDist, dataSourcePath]) dataDestPath acc)
      else acc)"

text \<open>Lines 503-585: the closure run on one entry of \<open>routesToCopy\<close>.\<close>

definition copyRoute ::
  "utils \<Rightarrow> world \<Rightarrow> captured \<Rightarrow> string \<times> prerender_route \<Rightarrow> route_outcome" where
  "copyRoute u w c entry =
     (case entry of (path, route) \<Rightarrow>
      if revalidates (initialRevalidateSeconds route) then
        skipped (Debug (''skipping '' @ path @ '' due to revalidate''))
      else if list_ex (\<lambda>it. matches u path it) (pathsUsingsFeaturesNotSupportedByHosting c) then
        skipped (Debug (''skipping '' @ path @
          '' due to it matching an unsupported rewrite/redirect/header or middlware''))
      else if list_ex (\<lambda>it. path = it) (staticRoutesUsingServerActions c) then
        skipped (Debug (''skipping '' @ path @ '' due to server action''))
      else
        (let appPathRoute = appPathRouteOf c route in
         if \<not> includeOnThisDomain c path then
           skipped (Debug (''skipping '' @ path @
             '' since it is for a locale not deployed on this domain''))
         else
           (let sourcePath = sourcePathOf u c path route;
                localized = localizedDestPath u c path;
                dflt = defaultDestPath u c path
            in
            if \<not> fileExistsSync w sourcePath \<and> fileExistsSync w (sourcePath @ ''.html'') then
              (if path \<in> set (pprRoutes c) then
                 skipped (Debug (''skipping '' @ path @ '' due to ppr''))
               else
                 copyArtifacts u w c path route (sourcePath @ ''.html'')
                   (extended ''.html'' localized) (extended ''.html'' dflt))
            else if appPathRoute \<noteq> None \<and> basename u (template appPathRoute) = ''route''
                    \<and> fileExistsSync w (sourcePath @ ''.body'') then
              copyArtifacts u w c path route (sourcePath @ ''.body'') localized dflt
            else if \<not> pathExistsSync w sourcePath then
              skipped (ConsoleError
                (''Cannot find '' @ path @ '' in your compiled Next.js application.''))
            else copyArtifacts u w c path route sourcePath localized dflt)))"

text \<open>Lines 473-493: the routes to copy.\<close>

definition staticPage :: prerender_route where
  "staticPage =
     \<lparr>srcRoute = None, initialRevalidateSeconds = RevalidateFalse, dataRoute = Some [],
      experimentalPPR = False, prefetchDataRoute = Some []\<rparr>"

definition pagesManifestLikePrerender :: "string obj \<Rightarrow> prerender_route obj" where
  "pagesManifestLikePrerender pagesManifest =
     fromEntries
       (map (\<lambda>(path, srcRoute). (path, staticPage))
          (filter (\<lambda>(path, srcRoute). endsWith srcRoute ''.html'') pagesManifest))"

definition routesToCopy :: "prerender_manifest \<Rightarrow> string obj \<Rightarrow> prerender_route obj" where
  "routesToCopy prerenderManifest pagesManifest =
     spread (routes prerenderManifest) (pagesManifestLikePrerender pagesManifest)"

text \<open>\<^verbatim>\<open>new RegExp(s)\<close> on each element of a list, in order.\<close>

fun compileAll :: "utils \<Rightarrow> string list \<Rightarrow> error + string list" where
  "compileAll u [] = Inr []"
| "compileAll u (s # ss) =
     (case newRegExp u s of
        Some e \<Rightarrow> Inl e
      | None \<Rightarrow> await (compileAll u ss) (\<lambda>rs. Inr (s # rs)))"

definition attempt :: "error option \<Rightarrow> error + unit" where
  "attempt r = (case r of Some e \<Rightarrow> Inl e | None \<Rightarrow> Inr ())"

text \<open>
  Lines 404-500: everything before the fan-out over the routes. The result is the
  directory copies made, the variables the closure captures and the routes to copy.
  Of the six manifests read together, the four without a \<^verbatim>\<open>catch\<close> reject the whole
  \<^verbatim>\<open>Promise.all\<close>; the model takes the first of them in the order of the array.
\<close>

definition prepareMaterializer ::
  "utils \<Rightarrow> world \<Rightarrow> string \<Rightarrow> string \<Rightarrow> string \<Rightarrow> string \<Rightarrow>
   error + ((string \<times> string) list \<times> captured \<times> prerender_route obj)" where
  "prepareMaterializer u w srcDir dstDir ctxSite ctxProject =
     await (getConfig u w) (\<lambda>cfg.
     await
       (case cfg_i18n cfg of
          None \<Rightarrow> Inr None
        | Some i \<Rightarrow>
            (case domains i of
               None \<Rightarrow> Inr None
             | Some ds \<Rightarrow>
                 await (getAllSiteDomains w ctxProject ctxSite) (\<lambda>siteDomains.
                 Inr (find (\<lambda>d. domain d \<in> set siteDomains) ds))))
       (\<lambda>matching.
     let single =
           (case cfg_i18n cfg of
              None \<Rightarrow> True
            | Some i \<Rightarrow>
                length
                  (case matching of
                     Some d \<Rightarrow> (case d_locales d of None \<Rightarrow> [] | Some ls \<Rightarrow> ls)
                   | None \<Rightarrow> locales i) \<le> 1);
         publicPath = join u [srcDir, ''public''];
         staticDest = join u [dstDir, basePath cfg, ''_next'', ''static'']
     in
     await (attempt (mkdir w staticDest)) (\<lambda>_.
     await (pathExists w publicPath) (\<lambda>publicExists.
     await
       (if publicExists
        then await (attempt (copy w publicPath (join u [dstDir, basePath cfg])))
               (\<lambda>_. Inr [(publicPath, join u [dstDir, basePath cfg])])
        else Inr [])
       (\<lambda>treeCopies.
     await (attempt (copy w (join u [srcDir, distDir cfg, ''static'']) staticDest)) (\<lambda>_.
     let treeCopies = treeCopies @ [(join u [srcDir, distDir cfg, ''static''], staticDest)] in
     await (readMiddlewareManifest w) (\<lambda>middlewareManifest.
     await (readPrerenderManifest w) (\<lambda>prerenderManifest.
     await (readRoutesManifest w) (\<lambda>routesManifest.
     await (readPagesManifest w) (\<lambda>pagesManifest.
     let appPathRoutesManifest =
           (case readAppPathRoutesManifest w of Inl e \<Rightarrow> [] | Inr m \<Rightarrow> m);
         serverReferenceManifest =
           (case readServerReferenceManifest w of
              Inl e \<Rightarrow> \<lparr>node = [], edge = [], encryptionKey = []\<rparr>
            | Inr m \<Rightarrow> m);
         middlewareMatcherRegexes = getMiddlewareMatcherRegexes u middlewareManifest;
         rds = (case rm_redirects routesManifest of None \<Rightarrow> [] | Some rs \<Rightarrow> rs);
         rws = (case rm_rewrites routesManifest of None \<Rightarrow> RewritesArray [] | Some rw \<Rightarrow> rw);
         hds = (case rm_headers routesManifest of None \<Rightarrow> [] | Some hs \<Rightarrow> hs)
     in
     await
       (compileAll u
          (map (\<lambda>rewrite. w_regex rewrite)
             (map (cleanI18n_rewrite u)
                (filter (\<lambda>rewrite. \<not> isRewriteSupportedByHosting u rewrite)
                   (getNextjsRewritesToUse u rws)))))
       (\<lambda>rewritesRegexesNotSupportedByHosting.
     await
       (compileAll u
          (map (\<lambda>redirect. r_regex redirect)
             (map (cleanI18n_redirect u)
                (filter (\<lambda>redirect. \<not> isRedirectSupportedByHosting u redirect)
                   (filter (\<lambda>it. \<not> r_internal it) rds)))))
       (\<lambda>redirectsRegexesNotSupportedByHosting.
     await
       (compileAll u
          (map (\<lambda>header. h_regex header)
             (filter (\<lambda>header. \<not> isHeaderSupportedByHosting u header) hds)))
       (\<lambda>headersRegexesNotSupportedByHosting.
     await (getAppMetadataFromMetaFiles w (distDir cfg) (basePath cfg) appPathRoutesManifest)
       (\<lambda>(headersFromMetaFiles, ppr).
     Inr (treeCopies,
          \<lparr>sourceDir = srcDir, destDir = dstDir, c_distDir = distDir cfg,
           c_basePath = basePath cfg, c_i18n = cfg_i18n cfg, matchingI18nDomain = matching,
           singleLocaleDomain = single,
           pathsUsingsFeaturesNotSupportedByHosting =
             middlewareMatcherRegexes @ rewritesRegexesNotSupportedByHosting
             @ redirectsRegexesNotSupportedByHosting @ headersRegexesNotSupportedByHosting,
           staticRoutesUsingServerActions =
             getRoutesWithServerAction u serverReferenceManifest appPathRoutesManifest,
           appPathRoutesEntries = appPathRoutesManifest,
           pprRoutes = ppr\<rparr>,
          routesToCopy prerenderManifest pagesManifest)))))))))))))))"

text \<open>
  The materializer: the directory copies and, for each route to copy, what its closure
  did. The closures run independently of each other; the promise of the function is
  rejected when one of them has been, and the files already copied stay.
\<close>

record materialized =
  treeCopies :: "(string \<times> string) list"
  routeOutcomes :: "(string \<times> route_outcome) list"

definition codegenPublicDirectory ::
  "utils \<Rightarrow> world \<Rightarrow> string \<Rightarrow> string \<Rightarrow> string \<Rightarrow> string \<Rightarrow> error + materialized" where
  "codegenPublicDirectory u w srcDir dstDir ctxSite ctxProject =
     await (prepareMaterializer u w srcDir dstDir ctxSite ctxProject) (\<lambda>(trees, c, toCopy).
     Inr \<lparr>treeCopies = trees,
          routeOutcomes = map (\<lambda>entry. (fst entry, copyRoute u w c entry)) toCopy\<rparr>)"

section \<open>The reasons at two points of \<^verbatim>\<open>build\<close>\<close>

text \<open>
  \<open>reasonsBeforeApp\<close> is the set of reasons as it stands at line 241, before the app
  directory is looked at; \<open>reasonsAfterApp\<close> is what lines 299-329 make of the set they
  find. Both only name parts of \<open>classify\<close>.
\<close>

definition reasonsBeforeApp ::
  "utils \<Rightarrow> bool \<Rightarrow> bool \<Rightarrow> prerender_manifest \<Rightarrow> string obj \<Rightarrow> dynamic_route obj \<Rightarrow>
   routes_manifest \<Rightarrow> string list" where
  "reasonsBeforeApp u usingMiddleware usingImageOptimization prerenderManifest
       pagesManifestJSON d manifest =
     (let r = addIf usingMiddleware ''middleware'' [];
          r = addIf usingImageOptimization ''Image Optimization'' r;
          r = revalidateReasons prerenderManifest (fallbackReasons prerenderManifest r);
          r = fold (\<lambda>key. Set_add (''non-static route '' @ key))
                (getNonStaticRoutes u pagesManifestJSON (keys (routes prerenderManifest))
                   (keys d)) r
      in
      addIf (\<not> list_all (isHeaderSupportedByHosting u)
                 (map (cleanI18n_header u)
                    (case rm_headers manifest of None \<Rightarrow> [] | Some hs \<Rightarrow> hs)))
        ''advanced headers'' r)"

definition reasonsAfterApp :: "utils \<Rightarrow> routes_manifest \<Rightarrow> string list \<Rightarrow> string list" where
  "reasonsAfterApp u manifest r =
     (let nextJsRewrites =
            (case rm_rewrites manifest of None \<Rightarrow> RewritesArray [] | Some rw \<Rightarrow> rw);
          r = addIf (\<not> list_all (isRedirectSupportedByHosting u)
                         (filter (\<lambda>it. \<not> r_internal it)
                            (case rm_redirects manifest of None \<Rightarrow> [] | Some rs \<Rightarrow> rs)))
                ''advanced redirects'' r;
          r = addIf (hasAfterFilesOrFallback nextJsRewrites) ''advanced rewrites'' r
      in
      addIf (\<not> list_all (isRewriteSupportedByHosting u)
                 (getNextjsRewritesToUse u nextJsRewrites))
        ''advanced rewrites'' r)"

section \<open>An instance of the collaborators and of the world\<close>

text \<open>
  Stand-ins on which the functions above can be run: a rule is supported when it
  carries nothing beyond the fields read here, the parts of paths are joined with single
  slashes, a pattern
  matches the path equal to it, and a file exists when its name ends in \<^verbatim>\<open>.html\<close>.
  The world is a site with one prerendered page and no configuration file.
\<close>

fun with_slashes :: "string list \<Rightarrow> string" where
  "with_slashes [] = ''.''"
| "with_slashes [p] = p"
| "with_slashes (p # q # ps) = p @ ''/'' @ with_slashes (q # ps)"

definition join_slash :: "string list \<Rightarrow> string" where
  "join_slash ps =
     with_slashes (filter (\<lambda>part. part \<noteq> []) (concat (map (str_split CHR ''/'') ps)))"

definition example_utils :: utils where
  "example_utils =
     \<lparr>cleanEscapedChars = (\<lambda>s. s),
      cleanI18n_header = (\<lambda>h. h),
      cleanI18n_redirect = (\<lambda>r. r),
      cleanI18n_rewrite = (\<lambda>r. r),
      isHeaderSupportedByHosting = (\<lambda>h. h_rest h = JNull),
      isRedirectSupportedByHosting = (\<lambda>r. r_rest r = JNull),
      isRewriteSupportedByHosting = (\<lambda>r. w_rest r = JNull),
      getNextjsRewritesToUse =
        (\<lambda>rw. case rw of
                 RewritesArray rs \<Rightarrow> rs
               | RewritesObject bf af fb \<Rightarrow> (case bf of None \<Rightarrow> [] | Some rs \<Rightarrow> rs)),
      getNonStaticRoutes = (\<lambda>pages prerendered dyn. []),
      getNonStaticServerComponents = (\<lambda>apm aprm prerendered dyn. []),
      getRoutesWithServerAction = (\<lambda>srm aprm. []),
      getMiddlewareMatcherRegexes = (\<lambda>m. []),
      validateLocales = (\<lambda>ls. None),
      parseStrict = (\<lambda>t. Inr []),
      gte = (\<lambda>a b. True),
      join = join_slash,
      basename = (\<lambda>p. last (str_split CHR ''/'' p)),
      dirname = (\<lambda>p. p),
      newRegExp = (\<lambda>s. None),
      matches = (\<lambda>p r. p = r),
      I18N_ROOT = ''i18n_root''\<rparr>"

definition about_page :: prerender_route where
  "about_page =
     \<lparr>srcRoute = None, initialRevalidateSeconds = RevalidateFalse,
      dataRoute = Some ''/_data/about.json'', experimentalPPR = False,
      prefetchDataRoute = None\<rparr>"

definition example_world :: world where
  "example_world =
     \<lparr>warnIfCustomBuildScript = Inr (),
      getReactVersion = None,
      process_env = [],
      pathExists_projectEnv = (\<lambda>p. Inr False),
      readFile_projectEnv = (\<lambda>p. Inr []),
      getDeploymentDomain = (\<lambda>p s c. Inr None),
      getNodeModuleBin = Inr ''next'',
      spawn = (\<lambda>cli env. \<lparr>child_output = [], ending = ChildExit 0\<rparr>),
      whichNextConfigFile = Inr None,
      getNextVersion = None,
      loadConfig = Inl (Thrown ''no configuration''),
      importConfig = Inl (Thrown ''no configuration''),
      isUsingMiddleware = Inr False,
      isUsingImageOptimization = Inr False,
      readPrerenderManifest = Inr \<lparr>routes = [(''/about'', about_page)], dynamicRoutes = Some []\<rparr>,
      readPagesManifest = Inr [],
      readRoutesManifest =
        Inr \<lparr>rm_headers = None, rm_redirects = None, rm_rewrites = None, rm_i18n = None\<rparr>,
      readAppPathsManifest = Inl ManifestMissing,
      readAppPathRoutesManifest = Inl ManifestMissing,
      readServerReferenceManifest = Inl ManifestMissing,
      readMiddlewareManifest = Inr (JObject []),
      getAppMetadataFromMetaFiles = (\<lambda>d b m. Inr ([], [])),
      hasStaticAppNotFoundComponent = Inr False,
      getAllSiteDomains = (\<lambda>p s. Inr [''a.com'']),
      mkdir = (\<lambda>p. None),
      copy = (\<lambda>a b. None),
      copyFile = (\<lambda>a b. None),
      pathExists = (\<lambda>p. Inr False),
      fileExistsSync = (\<lambda>p. endsWith p ''.html''),
      pathExistsSync = (\<lambda>p. False)\<rparr>"

text \<open>Variations of that world, one for each situation looked at below.\<close>

definition middleware_world :: world where
  "middleware_world = example_world\<lparr>isUsingMiddleware := Inr True\<rparr>"

definition plain_rewrite :: rewrite_rule where
  "plain_rewrite =
     \<lparr>w_source = ''/old'', w_destination = ''/new'', w_regex = ''^/old$'', w_rest = JNull\<rparr>"

definition conditional_rewrite :: rewrite_rule where
  "conditional_rewrite =
     \<lparr>w_source = ''/a'', w_destination = ''/b'', w_regex = ''^/a$'',
      w_rest = JObject [(''has'', JArray [JString ''cookie''])]\<rparr>"

definition conditional_header :: "string \<Rightarrow> header_rule" where
  "conditional_header src =
     \<lparr>h_source = src, h_headers = [(''x-frame-options'', ''DENY'')], h_regex = src,
      h_rest = JObject [(''has'', JArray [JString ''cookie''])]\<rparr>"

definition conditional_redirect :: "bool \<Rightarrow> redirect_rule" where
  "conditional_redirect internal =
     \<lparr>r_source = ''/from'', r_destination = ''/to'', r_statusCode = Some 308,
      r_internal = internal, r_regex = ''^/from$'',
      r_rest = JObject [(''has'', JArray [JString ''cookie''])]\<rparr>"

definition afterFiles_world :: world where
  "afterFiles_world =
     example_world\<lparr>readRoutesManifest :=
       Inr \<lparr>rm_headers = None,
            rm_redirects = Some [conditional_redirect True],
            rm_rewrites = Some (RewritesObject (Some []) (Some [plain_rewrite]) None),
            rm_i18n = None\<rparr>\<rparr>"

definition advanced_rules_manifest :: routes_manifest where
  "advanced_rules_manifest =
     \<lparr>rm_headers = Some [conditional_header ''/x'', conditional_header ''/y''],
      rm_redirects = Some [conditional_redirect False, conditional_redirect False],
      rm_rewrites = Some (RewritesArray [conditional_rewrite, plain_rewrite, conditional_rewrite]),
      rm_i18n = None\<rparr>"

definition advanced_rules_world :: world where
  "advanced_rules_world = example_world\<lparr>readRoutesManifest := Inr advanced_rules_manifest\<rparr>"

definition failed_build_world :: world where
  "failed_build_world =
     example_world\<lparr>spawn :=
       (\<lambda>cli env. \<lparr>child_output = [''Failed to compile.''], ending = ChildExit 1\<rparr>)\<rparr>"

definition no_binary_world :: world where
  "no_binary_world =
     example_world\<lparr>spawn :=
       (\<lambda>cli env. \<lparr>child_output = [], ending = ChildError ''Error: spawn next ENOENT''\<rparr>)\<rparr>"



definition static_result :: build_result where
  "static_result =
     \<lparr>wantsBackend = False, headers = [], redirects = [], hosting_rewrites = [],
      trailingSlash = False, i18n = False, baseUrl = ''/''\<rparr>"


text \<open>Worlds for the materializer: pages without a data file, locales and domains.\<close>

definition plain_page :: prerender_route where
  "plain_page =
     \<lparr>srcRoute = None, initialRevalidateSeconds = RevalidateFalse, dataRoute = None,
      experimentalPPR = False, prefetchDataRoute = None\<rparr>"

definition page_with_data :: "string \<Rightarrow> prerender_route" where
  "page_with_data d = plain_page\<lparr>dataRoute := Some d\<rparr>"

definition with_routes :: "prerender_route obj \<Rightarrow> dynamic_route obj \<Rightarrow> world \<Rightarrow> world" where
  "with_routes rs ds w = w\<lparr>readPrerenderManifest := Inr \<lparr>routes = rs, dynamicRoutes = Some ds\<rparr>\<rparr>"

definition with_i18n :: "i18n_config \<Rightarrow> world \<Rightarrow> world" where
  "with_i18n i w =
     w\<lparr>whichNextConfigFile := Inr (Some ''next.config.js''),
       getNextVersion := Some ''14.0.0'',
       loadConfig := Inr \<lparr>nc_distDir = None, nc_trailingSlash = None, nc_basePath = None,
                           nc_i18n = Some i\<rparr>\<rparr>"

definition english_french :: i18n_config where
  "english_french =
     \<lparr>locales = [''en'', ''fr'', ''de''], defaultLocale = ''en'',
      domains = Some [\<lparr>domain = ''a.com'', d_defaultLocale = ''en'',
                       d_locales = Some [''en'', ''fr'']\<rparr>]\<rparr>"

definition english_french_world :: world where
  "english_french_world =
     with_i18n english_french
       (with_routes [(''/en/about'', plain_page),
                     (''/fr/about'', page_with_data ''/_next/data/build/fr/about.json''),
                     (''/de/about'', plain_page)] [] example_world)"

definition dutch :: i18n_config where
  "dutch =
     \<lparr>locales = [''nl'', ''be''], defaultLocale = ''nl'',
      domains = Some [\<lparr>domain = ''a.com'', d_defaultLocale = ''nl'',
                       d_locales = Some [''be'']\<rparr>]\<rparr>"

definition dutch_world :: world where
  "dutch_world =
     with_i18n dutch
       (with_routes [(''/nl/about'', plain_page),
                     (''/be/about'', page_with_data ''/_next/data/build/be/about.json'')] []
          example_world)"

definition blog_world :: world where
  "blog_world =
     with_routes [(''/blog/first'', plain_page\<lparr>srcRoute := Some ''/blog/[slug]''\<rparr>)]
       [(''/blog/[slug]'', \<lparr>fallback = FallbackTrue\<rparr>)] example_world"

definition pattern_as_route_world :: world where
  "pattern_as_route_world =
     with_routes [(''/blog/[slug]'', plain_page)]
       [(''/blog/[slug]'', \<lparr>fallback = FallbackTrue\<rparr>)] example_world"

definition news_world :: world where
  "news_world =
     with_routes [(''/news'', plain_page\<lparr>initialRevalidateSeconds := RevalidateSeconds 60\<rparr>)] []
       example_world"

definition news_html_world :: world where
  "news_html_world = news_world\<lparr>readPagesManifest := Inr [(''/news'', ''pages/news.html'')]\<rparr>"

definition dash_world :: world where
  "dash_world =
     (with_routes [(''/dash'', plain_page\<lparr>srcRoute := Some ''/dash''\<rparr>)] [] example_world)
       \<lparr>readAppPathRoutesManifest := Inr [(''/dash/page'', ''/dash'')],
        getAppMetadataFromMetaFiles := (\<lambda>d b m. Inr ([], [''/dash'']))\<rparr>"

definition dash_file_world :: world where
  "dash_file_world = dash_world\<lparr>fileExistsSync := (\<lambda>p. True), pathExistsSync := (\<lambda>p. True)\<rparr>"

text \<open>The variables captured by the closure in these worlds.\<close>

definition example_captured :: captured where
  "example_captured =
     \<lparr>sourceDir = ''src'', destDir = ''dst'', c_distDir = ''.next'', c_basePath = ''/'',
      c_i18n = None, matchingI18nDomain = None, singleLocaleDomain = True,
      pathsUsingsFeaturesNotSupportedByHosting = [], staticRoutesUsingServerActions = [],
      appPathRoutesEntries = [], pprRoutes = []\<rparr>"

definition page_copy :: "string \<Rightarrow> string \<Rightarrow> route_outcome" where
  "page_copy src dst = \<lparr>route_log = [], copied = [(Page, src, dst)], rejected = None\<rparr>"

definition english_french_captured :: captured where
  "english_french_captured =
     example_captured\<lparr>c_i18n := Some english_french,
       matchingI18nDomain :=
         Some \<lparr>domain = ''a.com'', d_defaultLocale = ''en'', d_locales = Some [''en'', ''fr'']\<rparr>,
       singleLocaleDomain := False\<rparr>"

definition dutch_captured :: captured where
  "dutch_captured =
     example_captured\<lparr>c_i18n := Some dutch,
       matchingI18nDomain :=
         Some \<lparr>domain = ''a.com'', d_defaultLocale = ''nl'', d_locales = Some [''be'']\<rparr>,
       singleLocaleDomain := True\<rparr>"

definition dash_captured :: captured where
  "dash_captured =
     example_captured\<lparr>appPathRoutesEntries := [(''/dash/page'', ''/dash'')],
       pprRoutes := [''/dash'']\<rparr>"


section \<open>Sequencing and sets\<close>

lemma awaitE:
  assumes "await m f = Inr y"
  obtains x where "m = Inr x" and "f x = Inr y"
  using assms by (cases m) (simp_all add: await_def)

lemma await_Inr_iff: "await m f = Inr y \<longleftrightarrow> (\<exists>x. m = Inr x \<and> f x = Inr y)"
  by (cases m) (simp_all add: await_def)

lemma await_Inl: "m = Inl e \<Longrightarrow> await m f = Inl e"
  by (simp add: await_def)

lemma await_isl: "isl (f x) \<Longrightarrow> m = Inr x \<or> isl m \<Longrightarrow> isl (await m f)"
  by (cases m) (auto simp: await_def)

lemma set_Set_add: "set (Set_add x s) = insert x (set s)"
  by (auto simp: Set_add_def)

lemma distinct_Set_add: "distinct s \<Longrightarrow> distinct (Set_add x s)"
  by (simp add: Set_add_def)

lemma set_addIf: "set (addIf c x s) = (if c then insert x (set s) else set s)"
  by (simp add: addIf_def set_Set_add)

lemma distinct_addIf: "distinct s \<Longrightarrow> distinct (addIf c x s)"
  by (simp add: addIf_def distinct_Set_add)

lemma set_fold_Set_add: "set (fold (\<lambda>x. Set_add (f x)) xs s) = f ` set xs \<union> set s"
  by (induction xs arbitrary: s) (auto simp: set_Set_add)

lemma distinct_fold_Set_add: "distinct s \<Longrightarrow> distinct (fold (\<lambda>x. Set_add (f x)) xs s)"
  by (induction xs arbitrary: s) (auto simp: distinct_Set_add)

lemma count_list_distinct:
  "distinct xs \<Longrightarrow> count_list xs x = (if x \<in> set xs then 1 else 0)"
  by (induction xs) auto

section \<open>The reasons of the classification pass\<close>

lemma set_fallbackReasons:
  "set (fallbackReasons pm s) =
     (\<lambda>p. ''use of fallback '' @ fst p) `
        {p \<in> set (case dynamicRoutes pm of None \<Rightarrow> [] | Some d \<Rightarrow> d).
           fallback (snd p) \<noteq> FallbackFalse}
     \<union> set s"
  by (simp add: fallbackReasons_def case_prod_unfold set_fold_Set_add)

lemma set_revalidateReasons:
  "set (revalidateReasons pm s) =
     (\<lambda>p. ''use of revalidate '' @ template (srcRoute (snd p))) `
        {p \<in> set (routes pm). revalidates (initialRevalidateSeconds (snd p))}
     \<union> set s"
  by (simp add: revalidateReasons_def case_prod_unfold set_fold_Set_add)

lemma distinct_fallbackReasons: "distinct s \<Longrightarrow> distinct (fallbackReasons pm s)"
  by (simp add: fallbackReasons_def case_prod_unfold distinct_fold_Set_add)

lemma distinct_revalidateReasons: "distinct s \<Longrightarrow> distinct (revalidateReasons pm s)"
  by (simp add: revalidateReasons_def case_prod_unfold distinct_fold_Set_add)

lemma set_reasonsBeforeApp:
  "set (reasonsBeforeApp u mw img pm pages d manifest) =
     (if mw then {''middleware''} else {}) \<union>
     (if img then {''Image Optimization''} else {}) \<union>
     (\<lambda>p. ''use of fallback '' @ fst p) `
        {p \<in> set (case dynamicRoutes pm of None \<Rightarrow> [] | Some d \<Rightarrow> d).
           fallback (snd p) \<noteq> FallbackFalse} \<union>
     (\<lambda>p. ''use of revalidate '' @ template (srcRoute (snd p))) `
        {p \<in> set (routes pm). revalidates (initialRevalidateSeconds (snd p))} \<union>
     (\<lambda>key. ''non-static route '' @ key) `
        set (getNonStaticRoutes u pages (keys (routes pm)) (keys d)) \<union>
     (if list_all (isHeaderSupportedByHosting u)
           (map (cleanI18n_header u) (case rm_headers manifest of None \<Rightarrow> [] | Some hs \<Rightarrow> hs))
      then {} else {''advanced headers''})"
  unfolding reasonsBeforeApp_def Let_def
  by (simp only: set_addIf set_fold_Set_add set_revalidateReasons set_fallbackReasons)
     auto

lemma distinct_reasonsBeforeApp: "distinct (reasonsBeforeApp u mw img pm pages d manifest)"
  unfolding reasonsBeforeApp_def Let_def
  by (intro distinct_addIf distinct_fold_Set_add distinct_revalidateReasons
      distinct_fallbackReasons) simp

lemma set_reasonsAfterApp:
  "set (reasonsAfterApp u manifest r) =
     set r \<union>
     (if list_all (isRedirectSupportedByHosting u)
           (filter (\<lambda>it. \<not> r_internal it)
              (case rm_redirects manifest of None \<Rightarrow> [] | Some rs \<Rightarrow> rs))
      then {} else {''advanced redirects''}) \<union>
     (if hasAfterFilesOrFallback
           (case rm_rewrites manifest of None \<Rightarrow> RewritesArray [] | Some rw \<Rightarrow> rw) \<or>
         \<not> list_all (isRewriteSupportedByHosting u)
             (getNextjsRewritesToUse u
                (case rm_rewrites manifest of None \<Rightarrow> RewritesArray [] | Some rw \<Rightarrow> rw))
      then {''advanced rewrites''} else {})"
  unfolding reasonsAfterApp_def Let_def
  by (simp only: set_addIf) auto

lemma distinct_reasonsAfterApp: "distinct r \<Longrightarrow> distinct (reasonsAfterApp u manifest r)"
  unfolding reasonsAfterApp_def Let_def
  by (intro distinct_addIf)

lemma appDirectory_None:
  "appDirectory u w cfg apm None srm pre dyn hdrs s = Inr (hdrs, s)"
  by (simp add: appDirectory_def)

lemma appDirectory_Some:
  assumes "appDirectory u w cfg apm (Some m) srm pre dyn hdrs s = Inr (hdrs', s')"
  shows "\<exists>hm ppr comps.
           getAppMetadataFromMetaFiles w (distDir cfg) (basePath cfg) m = Inr (hm, ppr) \<and>
           hdrs' = hdrs @ hm \<and> (apm = None \<longrightarrow> comps = []) \<and>
           s' = fold (\<lambda>key. Set_add (''route with server action '' @ key))
                  (case srm of None \<Rightarrow> [] | Some x \<Rightarrow> getRoutesWithServerAction u x m)
                  (fold (\<lambda>key. Set_add (''non-static component '' @ key)) comps
                     (fold (\<lambda>route. Set_add (''route with PPR '' @ route)) ppr s))"
proof (cases apm)
  case None
  with assms show ?thesis
    by (cases srm) (auto simp: appDirectory_def await_Inr_iff Let_def simp del: find.simps)
next
  case (Some a)
  with assms show ?thesis
    by (cases srm) (auto simp: appDirectory_def await_Inr_iff Let_def simp del: find.simps)
qed

text \<open>What the app directory adds to the reasons, whatever the three manifests.\<close>

lemma appDirectory_reasons:
  assumes "appDirectory u w cfg apm aprm srm pre dyn hdrs s = Inr (hdrs', s')"
  shows "\<exists>ppr comps acts.
           (aprm = None \<longrightarrow> ppr = [] \<and> comps = [] \<and> acts = []) \<and>
           (apm = None \<longrightarrow> comps = []) \<and> (srm = None \<longrightarrow> acts = []) \<and>
           (\<forall>m hm p. aprm = Some m \<longrightarrow>
              getAppMetadataFromMetaFiles w (distDir cfg) (basePath cfg) m = Inr (hm, p) \<longrightarrow>
              ppr = p) \<and>
           set s' = set s \<union> (\<lambda>r. ''route with PPR '' @ r) ` set ppr \<union>
             (\<lambda>k. ''non-static component '' @ k) ` set comps \<union>
             (\<lambda>k. ''route with server action '' @ k) ` set acts \<and>
           (distinct s \<longrightarrow> distinct s')"
proof (cases aprm)
  case None
  with assms have "s' = s" by (simp add: appDirectory_None)
  with None show ?thesis by auto
next
  case (Some m)
  with assms obtain hm ppr comps where
    meta: "getAppMetadataFromMetaFiles w (distDir cfg) (basePath cfg) m = Inr (hm, ppr)" and
    comps: "apm = None \<longrightarrow> comps = []" and
    s': "s' = fold (\<lambda>key. Set_add (''route with server action '' @ key))
                  (case srm of None \<Rightarrow> [] | Some x \<Rightarrow> getRoutesWithServerAction u x m)
                  (fold (\<lambda>key. Set_add (''non-static component '' @ key)) comps
                     (fold (\<lambda>route. Set_add (''route with PPR '' @ route)) ppr s))"
    using appDirectory_Some by blast
  let ?acts = "case srm of None \<Rightarrow> [] | Some x \<Rightarrow> getRoutesWithServerAction u x m"
  have "set s' = set s \<union> (\<lambda>r. ''route with PPR '' @ r) ` set ppr \<union>
             (\<lambda>k. ''non-static component '' @ k) ` set comps \<union>
             (\<lambda>k. ''route with server action '' @ k) ` set ?acts"
    unfolding s' by (simp only: set_fold_Set_add) blast
  moreover have "distinct s \<longrightarrow> distinct s'"
    unfolding s' by (simp add: distinct_fold_Set_add)
  moreover have "srm = None \<longrightarrow> ?acts = []" by simp
  ultimately show ?thesis
    using Some meta comps
    apply -
    apply (rule exI[of _ ppr], rule exI[of _ comps], rule exI[of _ ?acts])
    apply (intro conjI)
         apply simp
        apply assumption
       apply assumption
      apply simp
     apply assumption
    apply assumption
    done
qed

lemma classify_Inr:
  assumes "classify u w = Inr (reasons, result)"
  shows "\<exists>cfg mw img pm pages d manifest hs0 hs r1.
           getConfig u w = Inr cfg \<and> isUsingMiddleware w = Inr mw \<and>
           isUsingImageOptimization w = Inr img \<and> readPrerenderManifest w = Inr pm \<and>
           readPagesManifest w = Inr pages \<and> dynamicRoutes pm = Some d \<and>
           readRoutesManifest w = Inr manifest \<and>
           appDirectory u w cfg (catch_undefined (readAppPathsManifest w))
             (catch_undefined (readAppPathRoutesManifest w))
             (catch_undefined (readServerReferenceManifest w))
             (keys (routes pm)) (keys d) hs0 (reasonsBeforeApp u mw img pm pages d manifest)
             = Inr (hs, r1) \<and>
           reasons = reasonsAfterApp u manifest r1 \<and>
           wantsBackend result = (0 < Set_size reasons)"
  using assms unfolding classify_def reasonsBeforeApp_def reasonsAfterApp_def
  apply (simp only: Let_def)
  apply (elim awaitE)
  apply (rename_tac cfg mw img pm pages dyn manifest x)
  apply (case_tac "dynamicRoutes pm")
   apply simp
  apply (case_tac x)
  apply clarsimp
  apply (intro exI conjI)
   apply assumption
  apply (rule refl)
  done

text \<open>
  The reasons of a pass that succeeds: those gathered before the app directory, those
  of the app directory and those of the redirects and rewrites, each at most once.
\<close>

lemma classify_reasons:
  assumes "classify u w = Inr (reasons, result)"
  shows "\<exists>mw img pm pages d manifest ppr comps acts.
           readPrerenderManifest w = Inr pm \<and> readPagesManifest w = Inr pages \<and>
           dynamicRoutes pm = Some d \<and> readRoutesManifest w = Inr manifest \<and>
           isUsingMiddleware w = Inr mw \<and> isUsingImageOptimization w = Inr img \<and>
           (isl (readAppPathRoutesManifest w) \<longrightarrow> ppr = [] \<and> comps = [] \<and> acts = []) \<and>
           (isl (readAppPathsManifest w) \<longrightarrow> comps = []) \<and>
           (isl (readServerReferenceManifest w) \<longrightarrow> acts = []) \<and>
           (\<forall>cfg m hm p. getConfig u w = Inr cfg \<longrightarrow> readAppPathRoutesManifest w = Inr m \<longrightarrow>
              getAppMetadataFromMetaFiles w (distDir cfg) (basePath cfg) m = Inr (hm, p) \<longrightarrow>
              ppr = p) \<and>
           set reasons =
             set (reasonsAfterApp u manifest []) \<union>
             set (reasonsBeforeApp u mw img pm pages d manifest) \<union>
             (\<lambda>r. ''route with PPR '' @ r) ` set ppr \<union>
             (\<lambda>k. ''non-static component '' @ k) ` set comps \<union>
             (\<lambda>k. ''route with server action '' @ k) ` set acts \<and>
           distinct reasons \<and> wantsBackend result = (reasons \<noteq> [])"
proof -
  from classify_Inr[OF assms] obtain cfg mw img pm pages d manifest hs0 hs r1 where
    reads: "getConfig u w = Inr cfg" "isUsingMiddleware w = Inr mw"
      "isUsingImageOptimization w = Inr img" "readPrerenderManifest w = Inr pm"
      "readPagesManifest w = Inr pages" "dynamicRoutes pm = Some d"
      "readRoutesManifest w = Inr manifest" and
    app: "appDirectory u w cfg (catch_undefined (readAppPathsManifest w))
             (catch_undefined (readAppPathRoutesManifest w))
             (catch_undefined (readServerReferenceManifest w))
             (keys (routes pm)) (keys d) hs0 (reasonsBeforeApp u mw img pm pages d manifest)
             = Inr (hs, r1)" and
    res: "reasons = reasonsAfterApp u manifest r1"
      "wantsBackend result = (0 < Set_size reasons)"
    by (elim exE conjE) (rule that)
  from appDirectory_reasons[OF app] obtain ppr comps acts where
    a: "catch_undefined (readAppPathRoutesManifest w) = None \<longrightarrow>
          ppr = [] \<and> comps = [] \<and> acts = []"
      "catch_undefined (readAppPathsManifest w) = None \<longrightarrow> comps = []"
      "catch_undefined (readServerReferenceManifest w) = None \<longrightarrow> acts = []"
      "\<forall>m hm p. catch_undefined (readAppPathRoutesManifest w) = Some m \<longrightarrow>
              getAppMetadataFromMetaFiles w (distDir cfg) (basePath cfg) m = Inr (hm, p) \<longrightarrow>
              ppr = p"
      "set r1 = set (reasonsBeforeApp u mw img pm pages d manifest) \<union>
             (\<lambda>r. ''route with PPR '' @ r) ` set ppr \<union>
             (\<lambda>k. ''non-static component '' @ k) ` set comps \<union>
             (\<lambda>k. ''route with server action '' @ k) ` set acts"
      "distinct (reasonsBeforeApp u mw img pm pages d manifest) \<longrightarrow> distinct r1"
    by (elim exE conjE) (rule that)
  have catch: "\<And>m. catch_undefined m = None \<longleftrightarrow> isl m"
    "\<And>m x. catch_undefined m = Some x \<longleftrightarrow> m = Inr x"
    by (auto simp: catch_undefined_def split: sum.splits)
  have d: "distinct reasons"
    using a(6) by (simp add: res(1) distinct_reasonsAfterApp distinct_reasonsBeforeApp)
  have s: "set reasons =
             set (reasonsAfterApp u manifest []) \<union>
             set (reasonsBeforeApp u mw img pm pages d manifest) \<union>
             (\<lambda>r. ''route with PPR '' @ r) ` set ppr \<union>
             (\<lambda>k. ''non-static component '' @ k) ` set comps \<union>
             (\<lambda>k. ''route with server action '' @ k) ` set acts"
    unfolding res(1) set_reasonsAfterApp[of u manifest r1] set_reasonsAfterApp[of u manifest "[]"]
      a(5) by auto
  have wb: "wantsBackend result = (reasons \<noteq> [])"
    by (simp add: res(2) Set_size_def)
  show ?thesis
    apply (rule exI[of _ mw], rule exI[of _ img], rule exI[of _ pm], rule exI[of _ pages],
        rule exI[of _ d], rule exI[of _ manifest], rule exI[of _ ppr], rule exI[of _ comps],
        rule exI[of _ acts])
    using reads a(1-4) s d wb apply (simp add: catch)
    done
qed


lemma reasons_membership:
  assumes "classify u w = Inr (reasons, result)" and "readRoutesManifest w = Inr manifest"
  shows "(''advanced headers'' \<in> set reasons) =
           (\<not> list_all (isHeaderSupportedByHosting u)
                (map (cleanI18n_header u)
                   (case rm_headers manifest of None \<Rightarrow> [] | Some hs \<Rightarrow> hs)))"
    and "(''advanced redirects'' \<in> set reasons) =
           (\<not> list_all (isRedirectSupportedByHosting u)
                (filter (\<lambda>it. \<not> r_internal it)
                   (case rm_redirects manifest of None \<Rightarrow> [] | Some rs \<Rightarrow> rs)))"
    and "(''advanced rewrites'' \<in> set reasons) =
           (hasAfterFilesOrFallback
              (case rm_rewrites manifest of None \<Rightarrow> RewritesArray [] | Some rw \<Rightarrow> rw) \<or>
            \<not> list_all (isRewriteSupportedByHosting u)
                (getNextjsRewritesToUse u
                   (case rm_rewrites manifest of None \<Rightarrow> RewritesArray [] | Some rw \<Rightarrow> rw)))"
proof -
  from classify_reasons[OF assms(1)] obtain mw img pm pages d manifest' ppr comps acts where
    m: "readRoutesManifest w = Inr manifest'" and
    s: "set reasons =
             set (reasonsAfterApp u manifest' []) \<union>
             set (reasonsBeforeApp u mw img pm pages d manifest') \<union>
             (\<lambda>r. ''route with PPR '' @ r) ` set ppr \<union>
             (\<lambda>k. ''non-static component '' @ k) ` set comps \<union>
             (\<lambda>k. ''route with server action '' @ k) ` set acts"
    by (elim exE conjE) (rule that)
  from m assms(2) have [simp]: "manifest' = manifest" by simp
  show "(''advanced headers'' \<in> set reasons) =
           (\<not> list_all (isHeaderSupportedByHosting u)
                (map (cleanI18n_header u)
                   (case rm_headers manifest of None \<Rightarrow> [] | Some hs \<Rightarrow> hs)))"
    unfolding s set_reasonsAfterApp set_reasonsBeforeApp by auto
  show "(''advanced redirects'' \<in> set reasons) =
           (\<not> list_all (isRedirectSupportedByHosting u)
                (filter (\<lambda>it. \<not> r_internal it)
                   (case rm_redirects manifest of None \<Rightarrow> [] | Some rs \<Rightarrow> rs)))"
    unfolding s set_reasonsAfterApp set_reasonsBeforeApp by auto
  show "(''advanced rewrites'' \<in> set reasons) =
           (hasAfterFilesOrFallback
              (case rm_rewrites manifest of None \<Rightarrow> RewritesArray [] | Some rw \<Rightarrow> rw) \<or>
            \<not> list_all (isRewriteSupportedByHosting u)
                (getNextjsRewritesToUse u
                   (case rm_rewrites manifest of None \<Rightarrow> RewritesArray [] | Some rw \<Rightarrow> rw)))"
    unfolding s set_reasonsAfterApp set_reasonsBeforeApp by auto
qed

lemma classify_distinct: "classify u w = Inr (reasons, result) \<Longrightarrow> distinct reasons"
  using classify_reasons[of u w reasons result] by blast

lemma classify_wantsBackend:
  "classify u w = Inr (reasons, result) \<Longrightarrow> wantsBackend result = (reasons \<noteq> [])"
  using classify_reasons[of u w reasons result] by blast

lemma build_listing_result:
  "snd (build_listing limit u w ctx) =
     (case prepareBuild u w ctx of
        Inl e \<Rightarrow> Inl e
      | Inr (cli, env) \<Rightarrow>
          (case ending (spawn w cli env) of
             ChildError err \<Rightarrow> Inl (FirebaseError (''Unable to build your Next.js app: '' @ err))
           | ChildExit code \<Rightarrow> map_sum id snd (classify u w)))"
  by (simp add: build_listing_def Let_def split: sum.splits prod.splits child_end.splits)


lemma build_of_exit:
  assumes "prepareBuild u w ctx = Inr (cli, env)"
    and "ending (spawn w cli env) = ChildExit code"
    and "classify u w = Inr (rs, res)"
  shows "build u w ctx =
           (map Info (child_output (spawn w cli env)) @
              listReasons DEFAULT_NUMBER_OF_REASONS_TO_LIST
                (truthy (map_of (processEnv u w) ''DEBUG'')) rs,
            Inr res)"
  using assms by (simp add: build_def build_listing_def Let_def)

lemma listReasons_empty: "listReasons limit debugging [] = []"
  by (simp add: listReasons_def Set_size_def)


section \<open>Objects and the routes to copy\<close>

lemma set_obj_set_subset: "set (obj_set k v a) \<subseteq> insert (k, v) (set a)"
  by (induction a) (auto split: if_splits)

lemma map_of_obj_set: "map_of (obj_set k v a) = (map_of a)(k \<mapsto> v)"
  by (induction a) (auto simp: fun_eq_iff)

lemma fst_obj_set: "fst ` set (obj_set k v a) = insert k (fst ` set a)"
proof (induction a)
  case Nil
  then show ?case by simp
next
  case (Cons p a)
  obtain k' v' where p: "p = (k', v')" by (cases p)
  show ?case
    using Cons.IH by (cases "k' = k") (simp_all add: p insert_commute)
qed

lemma keys_obj_set: "set (keys (obj_set k v a)) = insert k (set (keys a))"
  by (simp add: keys_def fst_obj_set)

lemma distinct_keys_obj_set: "distinct (keys a) \<Longrightarrow> distinct (keys (obj_set k v a))"
proof (induction a)
  case Nil
  then show ?case by (simp add: keys_def)
next
  case (Cons p a)
  obtain k' v' where p: "p = (k', v')" by (cases p)
  from Cons have d: "distinct (keys (obj_set k v a))" and n: "k' \<notin> set (keys a)"
    by (simp_all add: keys_def p)
  from n have "k' \<noteq> k \<Longrightarrow> k' \<notin> set (keys (obj_set k v a))"
    by (simp add: keys_obj_set)
  with Cons.prems d show ?case
    by (auto simp: p keys_def)
qed

lemma set_spread_subset: "set (spread a b) \<subseteq> set a \<union> set b"
  unfolding spread_def
proof (induction b arbitrary: a)
  case Nil
  then show ?case by simp
next
  case (Cons p b)
  obtain k v where p: "p = (k, v)" by (cases p)
  have "set (fold (\<lambda>(k, v). obj_set k v) b (obj_set k v a)) \<subseteq> set (obj_set k v a) \<union> set b"
    by (rule Cons.IH)
  with set_obj_set_subset[of k v a] show ?case
    by (auto simp: p)
qed

lemma distinct_keys_spread: "distinct (keys a) \<Longrightarrow> distinct (keys (spread a b))"
  unfolding spread_def
  by (induction b arbitrary: a) (auto simp: distinct_keys_obj_set)

lemma keys_spread: "set (keys (spread a b)) = set (keys a) \<union> set (keys b)"
  unfolding spread_def keys_def
proof (induction b arbitrary: a)
  case Nil
  then show ?case by simp
next
  case (Cons p b)
  obtain k v where p: "p = (k, v)" by (cases p)
  have "set (map fst (fold (\<lambda>(k, v). obj_set k v) (p # b) a)) =
          fst ` set (obj_set k v a) \<union> fst ` set b"
    using Cons.IH[of "obj_set k v a"] by (simp add: p)
  then show ?case by (simp add: p fst_obj_set)
qed

lemma map_of_spread_const:
  assumes "snd ` set b \<subseteq> {c}"
  shows "map_of (spread a b) k = (if k \<in> set (keys b) then Some c else map_of a k)"
  using assms unfolding spread_def
proof (induction b arbitrary: a)
  case Nil
  then show ?case by (simp add: keys_def)
next
  case (Cons p b)
  obtain k' v' where p: "p = (k', v')" by (cases p)
  from Cons.prems have v': "v' = c" and b: "snd ` set b \<subseteq> {c}"
    by (auto simp: p)
  from Cons.IH[OF b, of "obj_set k' v' a"] show ?case
    by (auto simp: p v' keys_def map_of_obj_set)
qed

text \<open>The pages of the pages manifest that are literal HTML.\<close>

lemma pagesManifestLikePrerender_entries:
  "set (pagesManifestLikePrerender pages) \<subseteq>
     {(path, staticPage) | path src. (path, src) \<in> set pages \<and> endsWith src ''.html''}"
proof -
  have "set (pagesManifestLikePrerender pages) \<subseteq>
          set (map (\<lambda>(path, srcRoute). (path, staticPage))
                 (filter (\<lambda>(path, srcRoute). endsWith srcRoute ''.html'') pages))"
    unfolding pagesManifestLikePrerender_def fromEntries_def
    by (rule order_trans[OF set_spread_subset]) simp
  also have "\<dots> \<subseteq>
      {(path, staticPage) | path src. (path, src) \<in> set pages \<and> endsWith src ''.html''}"
    by auto
  finally show ?thesis .
qed

lemma pagesManifestLikePrerender_keys:
  "set (keys (pagesManifestLikePrerender pages)) =
     {path. \<exists>src. (path, src) \<in> set pages \<and> endsWith src ''.html''}"
  unfolding pagesManifestLikePrerender_def fromEntries_def keys_spread
  by (auto simp: keys_def image_iff)

lemma routesToCopy_entries:
  assumes "(path, route) \<in> set (routesToCopy pm pages)"
  shows "(path, route) \<in> set (routes pm) \<or>
         route = staticPage \<and> (\<exists>src. (path, src) \<in> set pages \<and> endsWith src ''.html'')"
  using assms set_spread_subset[of "routes pm" "pagesManifestLikePrerender pages"]
    pagesManifestLikePrerender_entries[of pages]
  unfolding routesToCopy_def by blast

lemma routesToCopy_keys:
  "set (keys (routesToCopy pm pages)) =
     set (keys (routes pm)) \<union> {path. \<exists>src. (path, src) \<in> set pages \<and> endsWith src ''.html''}"
  by (simp add: routesToCopy_def keys_spread pagesManifestLikePrerender_keys)

lemma routesToCopy_override:
  assumes "distinct (keys (routes pm))"
    and "(path, src) \<in> set pages" and "endsWith src ''.html''"
  shows "(path, route) \<in> set (routesToCopy pm pages) \<longleftrightarrow> route = staticPage"
proof -
  have c: "snd ` set (pagesManifestLikePrerender pages) \<subseteq> {staticPage}"
    using pagesManifestLikePrerender_entries[of pages] by auto
  have k: "path \<in> set (keys (pagesManifestLikePrerender pages))"
    using assms(2,3) by (auto simp: pagesManifestLikePrerender_keys)
  have m: "map_of (routesToCopy pm pages) path = Some staticPage"
    unfolding routesToCopy_def using map_of_spread_const[OF c, of "routes pm" path] k by simp
  have d: "distinct (map fst (routesToCopy pm pages))"
    using distinct_keys_spread[OF assms(1)] by (simp add: routesToCopy_def keys_def)
  show ?thesis
    using m map_of_eq_Some_iff[OF d, of path route] by auto
qed

lemma routesToCopy_keep:
  assumes "distinct (keys (routes pm))" and "(path, route) \<in> set (routes pm)"
    and "\<not> (\<exists>src. (path, src) \<in> set pages \<and> endsWith src ''.html'')"
    and "(path, route') \<in> set (routesToCopy pm pages)"
  shows "route' = route"
proof -
  from routesToCopy_entries[OF assms(4)] assms(3) have "(path, route') \<in> set (routes pm)"
    by blast
  with assms(1,2) show ?thesis
    by (metis keys_def map_of_eq_Some_iff option.inject)
qed


section \<open>What one closure copies\<close>

lemma copied_thenCopy:
  "set (copied (thenCopy u w kind src dest acc)) \<subseteq> insert (kind, src, dest) (set (copied acc))"
  by (auto simp: thenCopy_def split: option.splits)

lemma thenCopy_done:
  "rejected (thenCopy u w kind src dest acc) = None \<Longrightarrow>
     rejected acc = None \<and> copied (thenCopy u w kind src dest acc) = copied acc @ [(kind, src, dest)]"
  by (auto simp: thenCopy_def split: option.splits)

lemma copied_skipped: "copied (skipped entry) = []"
  by (simp add: skipped_def)

lemma copyArtifacts_copies:
  "set (copied (copyArtifacts u w c path route sourcePath localized dflt)) \<subseteq>
     (if truthy localized then {(Page, sourcePath, template localized)} else {}) \<union>
     (if truthy dflt then {(Page, sourcePath, template dflt)} else {}) \<union>
     (if truthy (dataRoute route) \<and> appPathRouteOf c route = None
      then {(Data,
             join u [contentDistOf u c route, join u (sourcePartsOrIndex path) @ ''.json''],
             join u [destDir c, c_basePath c, template (dataRoute route)])}
      else {})"
proof -
  let ?acc0 = "\<lparr>route_log = [], copied = [], rejected = None\<rparr>"
  let ?acc1 = "if truthy localized
               then thenCopy u w Page sourcePath (template localized) ?acc0 else ?acc0"
  let ?acc2 = "if truthy dflt then thenCopy u w Page sourcePath (template dflt) ?acc1 else ?acc1"
  have 1: "set (copied ?acc1) \<subseteq>
             (if truthy localized then {(Page, sourcePath, template localized)} else {})"
    using copied_thenCopy[of u w Page sourcePath "template localized" ?acc0] by auto
  have 2: "set (copied ?acc2) \<subseteq>
             (if truthy localized then {(Page, sourcePath, template localized)} else {}) \<union>
             (if truthy dflt then {(Page, sourcePath, template dflt)} else {})"
    using 1 copied_thenCopy[of u w Page sourcePath "template dflt" ?acc1]
    by (auto split: if_splits)
  show ?thesis
    using 2 copied_thenCopy[of u w Data
        "join u [contentDistOf u c route, join u (sourcePartsOrIndex path) @ ''.json'']"
        "join u [destDir c, c_basePath c, template (dataRoute route)]" ?acc2]
    unfolding copyArtifacts_def Let_def
    by (auto split: if_splits)
qed

lemma copyArtifacts_default_copy:
  assumes "rejected (copyArtifacts u w c path route sourcePath localized dflt) = None"
    and "truthy dflt"
  shows "(Page, sourcePath, template dflt) \<in>
           set (copied (copyArtifacts u w c path route sourcePath localized dflt))"
proof -
  let ?acc0 = "\<lparr>route_log = [], copied = [], rejected = None\<rparr>"
  let ?acc1 = "if truthy localized
               then thenCopy u w Page sourcePath (template localized) ?acc0 else ?acc0"
  let ?acc2 = "thenCopy u w Page sourcePath (template dflt) ?acc1"
  let ?d = "thenCopy u w Data
        (join u [contentDistOf u c route, join u (sourcePartsOrIndex path) @ ''.json''])
        (join u [destDir c, c_basePath c, template (dataRoute route)]) ?acc2"
  show ?thesis
  proof (cases "truthy (dataRoute route) \<and> appPathRouteOf c route = None")
    case True
    with assms have r: "rejected ?d = None" and e: "copyArtifacts u w c path route sourcePath localized dflt = ?d"
      by (simp_all add: copyArtifacts_def Let_def)
    from thenCopy_done[OF r] have "rejected ?acc2 = None" and
      "copied ?d = copied ?acc2 @ [(Data,
          join u [contentDistOf u c route, join u (sourcePartsOrIndex path) @ ''.json''],
          join u [destDir c, c_basePath c, template (dataRoute route)])]"
      by blast+
    with thenCopy_done[of u w Page sourcePath "template dflt" ?acc1] show ?thesis
      unfolding e by simp
  next
    case False
    with assms have r: "rejected ?acc2 = None" and e: "copyArtifacts u w c path route sourcePath localized dflt = ?acc2"
      by (auto simp: copyArtifacts_def Let_def)
    from thenCopy_done[OF r] show ?thesis unfolding e by simp
  qed
qed

lemma copyRoute_cases:
  "copyRoute u w c (path, route) =
     (if revalidates (initialRevalidateSeconds route) then
        skipped (Debug (''skipping '' @ path @ '' due to revalidate''))
      else if list_ex (\<lambda>it. matches u path it) (pathsUsingsFeaturesNotSupportedByHosting c) then
        skipped (Debug (''skipping '' @ path @
          '' due to it matching an unsupported rewrite/redirect/header or middlware''))
      else if list_ex (\<lambda>it. path = it) (staticRoutesUsingServerActions c) then
        skipped (Debug (''skipping '' @ path @ '' due to server action''))
      else if \<not> includeOnThisDomain c path then
        skipped (Debug (''skipping '' @ path @
          '' since it is for a locale not deployed on this domain''))
      else if \<not> fileExistsSync w (sourcePathOf u c path route) \<and>
              fileExistsSync w (sourcePathOf u c path route @ ''.html'') then
        (if path \<in> set (pprRoutes c) then
           skipped (Debug (''skipping '' @ path @ '' due to ppr''))
         else
           copyArtifacts u w c path route (sourcePathOf u c path route @ ''.html'')
             (extended ''.html'' (localizedDestPath u c path))
             (extended ''.html'' (defaultDestPath u c path)))
      else if appPathRouteOf c route \<noteq> None \<and>
              basename u (template (appPathRouteOf c route)) = ''route'' \<and>
              fileExistsSync w (sourcePathOf u c path route @ ''.body'') then
        copyArtifacts u w c path route (sourcePathOf u c path route @ ''.body'')
          (localizedDestPath u c path) (defaultDestPath u c path)
      else if \<not> pathExistsSync w (sourcePathOf u c path route) then
        skipped (ConsoleError
          (''Cannot find '' @ path @ '' in your compiled Next.js application.''))
      else
        copyArtifacts u w c path route (sourcePathOf u c path route)
          (localizedDestPath u c path) (defaultDestPath u c path))"
  by (simp only: copyRoute_def Let_def prod.case)

text \<open>A closure either skips its route or copies its artifacts from one source.\<close>

lemma copyRoute_shape:
  "(\<exists>e. copyRoute u w c (path, route) = skipped e) \<or>
   (\<exists>sp. copyRoute u w c (path, route) =
            copyArtifacts u w c path route sp (extended ''.html'' (localizedDestPath u c path))
              (extended ''.html'' (defaultDestPath u c path))) \<or>
   (\<exists>sp. copyRoute u w c (path, route) =
            copyArtifacts u w c path route sp (localizedDestPath u c path)
              (defaultDestPath u c path))"
proof -
  define P where "P oc \<longleftrightarrow>
    (\<exists>e. oc = skipped e) \<or>
    (\<exists>sp. oc = copyArtifacts u w c path route sp (extended ''.html'' (localizedDestPath u c path))
              (extended ''.html'' (defaultDestPath u c path))) \<or>
    (\<exists>sp. oc = copyArtifacts u w c path route sp (localizedDestPath u c path)
              (defaultDestPath u c path))" for oc
  have branch: "\<And>b x y. P x \<Longrightarrow> P y \<Longrightarrow> P (if b then x else y)"
    by simp
  have skip: "\<And>e. P (skipped e)"
    unfolding P_def by blast
  have html: "\<And>sp. P (copyArtifacts u w c path route sp
      (extended ''.html'' (localizedDestPath u c path))
      (extended ''.html'' (defaultDestPath u c path)))"
    unfolding P_def by blast
  have plain: "\<And>sp. P (copyArtifacts u w c path route sp (localizedDestPath u c path)
      (defaultDestPath u c path))"
    unfolding P_def by blast
  have "P (copyRoute u w c (path, route))"
    unfolding copyRoute_cases by (intro branch skip html plain)
  then show ?thesis unfolding P_def .
qed

lemma copyRoute_revalidate:
  "revalidates (initialRevalidateSeconds route) \<Longrightarrow> copied (copyRoute u w c (path, route)) = []"
  by (simp add: copyRoute_cases copied_skipped)

lemma copyRoute_excluded:
  "\<not> includeOnThisDomain c path \<Longrightarrow> copied (copyRoute u w c (path, route)) = []"
  by (simp add: copyRoute_cases copied_skipped)

lemma copyRoute_ppr:
  "path \<in> set (pprRoutes c) \<Longrightarrow> \<not> fileExistsSync w (sourcePathOf u c path route) \<Longrightarrow>
   fileExistsSync w (sourcePathOf u c path route @ ''.html'') \<Longrightarrow>
   copied (copyRoute u w c (path, route)) = []"
  by (simp add: copyRoute_cases copied_skipped)

lemma truthy_extended: "truthy (extended ext p) = truthy p"
  by (cases p) (auto simp: extended_def truthy_def)

lemma template_extended:
  "truthy p \<Longrightarrow> template (extended ext p) = template p @ ext"
  by (cases p) (auto simp: extended_def truthy_def template_def)

text \<open>A page found through the \<^verbatim>\<open>.html\<close> extension and not skipped is copied.\<close>

lemma copyRoute_html_copy:
  assumes "\<not> revalidates (initialRevalidateSeconds route)"
    and "\<not> list_ex (\<lambda>it. matches u path it) (pathsUsingsFeaturesNotSupportedByHosting c)"
    and "\<not> list_ex (\<lambda>it. path = it) (staticRoutesUsingServerActions c)"
    and "includeOnThisDomain c path"
    and "\<not> fileExistsSync w (sourcePathOf u c path route)"
    and "fileExistsSync w (sourcePathOf u c path route @ ''.html'')"
    and "path \<notin> set (pprRoutes c)"
    and "defaultDestPath u c path = Some D" and "D \<noteq> []"
    and "rejected (copyRoute u w c (path, route)) = None"
  shows "(Page, sourcePathOf u c path route @ ''.html'', D @ ''.html'') \<in>
           set (copied (copyRoute u w c (path, route)))"
proof -
  have e: "copyRoute u w c (path, route) =
             copyArtifacts u w c path route (sourcePathOf u c path route @ ''.html'')
               (extended ''.html'' (localizedDestPath u c path)) (extended ''.html'' (Some D))"
    using assms(1-8) by (simp add: copyRoute_cases)
  have t: "truthy (extended ''.html'' (Some D))"
    "template (extended ''.html'' (Some D)) = D @ ''.html''"
    using assms(9) by (simp_all add: extended_def truthy_def template_def)
  from copyArtifacts_default_copy[of u w c path route "sourcePathOf u c path route @ ''.html''"
      "extended ''.html'' (localizedDestPath u c path)" "extended ''.html'' (Some D)"]
    assms(10) t
  show ?thesis unfolding e by simp
qed

lemma copyRoute_data_copy:
  assumes "(Data, src, dst) \<in> set (copied (copyRoute u w c (path, route)))"
  shows "truthy (dataRoute route)"
proof -
  have a: "truthy (dataRoute route)"
    if "(Data, src, dst) \<in> set (copied (copyArtifacts u w c path route sp l d))" for sp l d
    using that copyArtifacts_copies[of u w c path route sp l d] by (auto split: if_splits)
  from copyRoute_shape[of u w c path route] assms show ?thesis
    by (elim disjE exE) (auto simp: copied_skipped dest: a)
qed

text \<open>
  What a closure copies: always among the three copies of lines 569-584, from the
  source file that lines 545-565 settle on; and all of them, in that order, when no check
  skips the route and no \<^verbatim>\<open>mkdir\<close> or \<^verbatim>\<open>copyFile\<close> fails.
\<close>

lemma copyArtifacts_done:
  assumes "\<forall>(kind, from, to) \<in> set
             ((if truthy localized then [(Page, sourcePath, template localized)] else []) @
              (if truthy dflt then [(Page, sourcePath, template dflt)] else []) @
              (if truthy (dataRoute route) \<and> appPathRouteOf c route = None
               then [(Data,
                      join u [contentDistOf u c route,
                              join u (sourcePartsOrIndex path) @ ''.json''],
                      join u [destDir c, c_basePath c, template (dataRoute route)])]
               else [])).
             mkdir w (dirname u to) = None \<and> copyFile w from to = None"
  shows "copyArtifacts u w c path route sourcePath localized dflt =
           \<lparr>route_log = [],
            copied =
              (if truthy localized then [(Page, sourcePath, template localized)] else []) @
              (if truthy dflt then [(Page, sourcePath, template dflt)] else []) @
              (if truthy (dataRoute route) \<and> appPathRouteOf c route = None
               then [(Data,
                      join u [contentDistOf u c route,
                              join u (sourcePartsOrIndex path) @ ''.json''],
                      join u [destDir c, c_basePath c, template (dataRoute route)])]
               else []),
            rejected = None\<rparr>"
proof -
  have 1: "truthy localized \<Longrightarrow>
             mkdir w (dirname u (template localized)) = None \<and>
             copyFile w sourcePath (template localized) = None"
    and 2: "truthy dflt \<Longrightarrow>
             mkdir w (dirname u (template dflt)) = None \<and>
             copyFile w sourcePath (template dflt) = None"
    and 3: "truthy (dataRoute route) \<and> appPathRouteOf c route = None \<Longrightarrow>
             mkdir w (dirname u (join u [destDir c, c_basePath c, template (dataRoute route)]))
               = None \<and>
             copyFile w
               (join u [contentDistOf u c route, join u (sourcePartsOrIndex path) @ ''.json''])
               (join u [destDir c, c_basePath c, template (dataRoute route)]) = None"
    using assms by auto
  show ?thesis
    unfolding copyArtifacts_def Let_def
    by (cases "truthy localized"; cases "truthy dflt";
        cases "truthy (dataRoute route) \<and> appPathRouteOf c route = None")
       (simp_all add: thenCopy_def 1 2 3)
qed

lemma copyRoute_copies:
  assumes "src = (if \<not> fileExistsSync w (sourcePathOf u c path route) \<and>
                     fileExistsSync w (sourcePathOf u c path route @ ''.html'')
                  then sourcePathOf u c path route @ ''.html''
                  else if appPathRouteOf c route \<noteq> None \<and>
                          basename u (template (appPathRouteOf c route)) = ''route'' \<and>
                          fileExistsSync w (sourcePathOf u c path route @ ''.body'')
                  then sourcePathOf u c path route @ ''.body''
                  else sourcePathOf u c path route)"
    and "ext = (if \<not> fileExistsSync w (sourcePathOf u c path route) \<and>
                    fileExistsSync w (sourcePathOf u c path route @ ''.html'')
                 then ''.html'' else [])"
  shows "set (copied (copyRoute u w c (path, route))) \<subseteq>
           (if truthy (localizedDestPath u c path)
            then {(Page, src, template (localizedDestPath u c path) @ ext)} else {}) \<union>
           (if truthy (defaultDestPath u c path)
            then {(Page, src, template (defaultDestPath u c path) @ ext)} else {}) \<union>
           (if truthy (dataRoute route) \<and> appPathRouteOf c route = None
            then {(Data,
                   join u [contentDistOf u c route, join u (sourcePartsOrIndex path) @ ''.json''],
                   join u [destDir c, c_basePath c, template (dataRoute route)])}
            else {})"
proof -
  let ?S = "sourcePathOf u c path route"
  let ?R = "(if truthy (localizedDestPath u c path)
            then {(Page, src, template (localizedDestPath u c path) @ ext)} else {}) \<union>
           (if truthy (defaultDestPath u c path)
            then {(Page, src, template (defaultDestPath u c path) @ ext)} else {}) \<union>
           (if truthy (dataRoute route) \<and> appPathRouteOf c route = None
            then {(Data,
                   join u [contentDistOf u c route, join u (sourcePartsOrIndex path) @ ''.json''],
                   join u [destDir c, c_basePath c, template (dataRoute route)])}
            else {})"
  define P where "P oc \<longleftrightarrow> set (copied oc) \<subseteq> ?R" for oc :: route_outcome
  have branch: "\<And>b x y. (b \<Longrightarrow> P x) \<Longrightarrow> (\<not> b \<Longrightarrow> P y) \<Longrightarrow> P (if b then x else y)"
    by simp
  have skip: "\<And>e. P (skipped e)"
    unfolding P_def by (simp add: copied_skipped)
  have html: "P (copyArtifacts u w c path route (?S @ ''.html'')
      (extended ''.html'' (localizedDestPath u c path))
      (extended ''.html'' (defaultDestPath u c path)))"
    if h: "\<not> fileExistsSync w ?S \<and> fileExistsSync w (?S @ ''.html'')"
  proof -
    from h assms have s: "src = ?S @ ''.html''" "ext = ''.html''"
      by simp_all
    show ?thesis
      unfolding P_def s
      using copyArtifacts_copies[of u w c path route "?S @ ''.html''"
          "extended ''.html'' (localizedDestPath u c path)"
          "extended ''.html'' (defaultDestPath u c path)"]
      by (cases "truthy (localizedDestPath u c path)"; cases "truthy (defaultDestPath u c path)")
         (simp_all add: truthy_extended template_extended)
  qed
  have body: "P (copyArtifacts u w c path route (?S @ ''.body'')
      (localizedDestPath u c path) (defaultDestPath u c path))"
    if h: "\<not> (\<not> fileExistsSync w ?S \<and> fileExistsSync w (?S @ ''.html''))"
      "appPathRouteOf c route \<noteq> None \<and>
           basename u (template (appPathRouteOf c route)) = ''route'' \<and>
           fileExistsSync w (?S @ ''.body'')"
  proof -
    from h assms have s: "src = ?S @ ''.body''" "ext = []"
      by simp_all
    show ?thesis
      unfolding P_def s
      using copyArtifacts_copies[of u w c path route "?S @ ''.body''"
          "localizedDestPath u c path" "defaultDestPath u c path"]
      by (simp only: append_Nil2)
  qed
  have plain: "P (copyArtifacts u w c path route ?S
      (localizedDestPath u c path) (defaultDestPath u c path))"
    if h: "\<not> (\<not> fileExistsSync w ?S \<and> fileExistsSync w (?S @ ''.html''))"
      "\<not> (appPathRouteOf c route \<noteq> None \<and>
           basename u (template (appPathRouteOf c route)) = ''route'' \<and>
           fileExistsSync w (?S @ ''.body''))"
  proof -
    from h assms have s: "src = ?S" "ext = []"
      by simp_all
    show ?thesis
      unfolding P_def s
      using copyArtifacts_copies[of u w c path route ?S
          "localizedDestPath u c path" "defaultDestPath u c path"]
      by (simp only: append_Nil2)
  qed
  have "P (copyRoute u w c (path, route))"
    unfolding copyRoute_cases
    by (intro branch skip html body plain) assumption+
  then show ?thesis unfolding P_def .
qed

lemma copyRoute_done:
  assumes "\<not> revalidates (initialRevalidateSeconds route)"
    and "\<not> list_ex (\<lambda>it. matches u path it) (pathsUsingsFeaturesNotSupportedByHosting c)"
    and "\<not> list_ex (\<lambda>it. path = it) (staticRoutesUsingServerActions c)"
    and "includeOnThisDomain c path"
    and "html = (\<not> fileExistsSync w (sourcePathOf u c path route) \<and>
                 fileExistsSync w (sourcePathOf u c path route @ ''.html''))"
    and "body = (appPathRouteOf c route \<noteq> None \<and>
                 basename u (template (appPathRouteOf c route)) = ''route'' \<and>
                 fileExistsSync w (sourcePathOf u c path route @ ''.body''))"
    and "html \<longrightarrow> path \<notin> set (pprRoutes c)"
    and "html \<or> body \<or> pathExistsSync w (sourcePathOf u c path route)"
    and "src = (if html then sourcePathOf u c path route @ ''.html''
                else if body then sourcePathOf u c path route @ ''.body''
                else sourcePathOf u c path route)"
    and "ext = (if html then ''.html'' else [])"
    and "copies =
           (if truthy (localizedDestPath u c path)
            then [(Page, src, template (localizedDestPath u c path) @ ext)] else []) @
           (if truthy (defaultDestPath u c path)
            then [(Page, src, template (defaultDestPath u c path) @ ext)] else []) @
           (if truthy (dataRoute route) \<and> appPathRouteOf c route = None
            then [(Data,
                   join u [contentDistOf u c route, join u (sourcePartsOrIndex path) @ ''.json''],
                   join u [destDir c, c_basePath c, template (dataRoute route)])]
            else [])"
    and "\<forall>(kind, from, to) \<in> set copies.
           mkdir w (dirname u to) = None \<and> copyFile w from to = None"
  shows "copyRoute u w c (path, route) = \<lparr>route_log = [], copied = copies, rejected = None\<rparr>"
proof -
  let ?S = "sourcePathOf u c path route"
  let ?L = "localizedDestPath u c path"
  let ?D = "defaultDestPath u c path"
  have e: "copyRoute u w c (path, route) =
             (if html then copyArtifacts u w c path route (?S @ ''.html'')
                             (extended ''.html'' ?L) (extended ''.html'' ?D)
              else copyArtifacts u w c path route src ?L ?D)"
    using assms(1-10) by (auto simp: copyRoute_cases)
  have l: "(if truthy l then [(Page, s, template (extended ''.html'' l))] else []) =
           (if truthy l then [(Page, s, template l @ ''.html'')] else [])" for l s
    by (simp add: template_extended)
  show ?thesis
  proof (cases html)
    case True
    then have s: "src = ?S @ ''.html''" "ext = ''.html''"
      using assms(9,10) by simp_all
    have c: "copies =
           (if truthy (extended ''.html'' ?L)
            then [(Page, ?S @ ''.html'', template (extended ''.html'' ?L))] else []) @
           (if truthy (extended ''.html'' ?D)
            then [(Page, ?S @ ''.html'', template (extended ''.html'' ?D))] else []) @
           (if truthy (dataRoute route) \<and> appPathRouteOf c route = None
            then [(Data,
                   join u [contentDistOf u c route, join u (sourcePartsOrIndex path) @ ''.json''],
                   join u [destDir c, c_basePath c, template (dataRoute route)])]
            else [])"
      unfolding assms(11) s by (simp only: truthy_extended l)
    have "copyRoute u w c (path, route) =
            copyArtifacts u w c path route (?S @ ''.html'')
              (extended ''.html'' ?L) (extended ''.html'' ?D)"
      using True by (simp only: e if_True)
    also have "\<dots> = \<lparr>route_log = [], copied = copies, rejected = None\<rparr>"
      unfolding c by (rule copyArtifacts_done) (rule assms(12)[unfolded c])
    finally show ?thesis .
  next
    case False
    have c: "copies =
           (if truthy ?L then [(Page, src, template ?L)] else []) @
           (if truthy ?D then [(Page, src, template ?D)] else []) @
           (if truthy (dataRoute route) \<and> appPathRouteOf c route = None
            then [(Data,
                   join u [contentDistOf u c route, join u (sourcePartsOrIndex path) @ ''.json''],
                   join u [destDir c, c_basePath c, template (dataRoute route)])]
            else [])"
      unfolding assms(11) using False assms(10) by (simp only: if_False append_Nil2)
    have "copyRoute u w c (path, route) = copyArtifacts u w c path route src ?L ?D"
      using False by (simp only: e if_False)
    also have "\<dots> = \<lparr>route_log = [], copied = copies, rejected = None\<rparr>"
      unfolding c by (rule copyArtifacts_done) (rule assms(12)[unfolded c])
    finally show ?thesis .
  qed
qed


section \<open>What the materializer prepares\<close>

lemma prepareMaterializer_Inr:
  assumes "prepareMaterializer u w srcDir dstDir ctxSite ctxProject = Inr (trees, c, toCopy)"
  shows "\<exists>cfg pm pages hm.
           getConfig u w = Inr cfg \<and>
           (case cfg_i18n cfg of
              None \<Rightarrow> Inr None
            | Some i \<Rightarrow>
                (case domains i of
                   None \<Rightarrow> Inr None
                 | Some ds \<Rightarrow>
                     await (getAllSiteDomains w ctxProject ctxSite) (\<lambda>siteDomains.
                     Inr (find (\<lambda>d. domain d \<in> set siteDomains) ds))))
             = Inr (matchingI18nDomain c) \<and>
           readPrerenderManifest w = Inr pm \<and> readPagesManifest w = Inr pages \<and>
           getAppMetadataFromMetaFiles w (distDir cfg) (basePath cfg)
             (case readAppPathRoutesManifest w of Inl e \<Rightarrow> [] | Inr m \<Rightarrow> m)
             = Inr (hm, pprRoutes c) \<and>
           toCopy = routesToCopy pm pages \<and>
           sourceDir c = srcDir \<and> destDir c = dstDir \<and> c_distDir c = distDir cfg \<and>
           c_basePath c = basePath cfg \<and> c_i18n c = cfg_i18n cfg \<and>
           singleLocaleDomain c =
             (case cfg_i18n cfg of
                None \<Rightarrow> True
              | Some i \<Rightarrow>
                  length
                    (case matchingI18nDomain c of
                       Some d \<Rightarrow> (case d_locales d of None \<Rightarrow> [] | Some ls \<Rightarrow> ls)
                     | None \<Rightarrow> locales i) \<le> 1)"
  using assms unfolding prepareMaterializer_def
  apply (simp only: Let_def)
  apply (elim awaitE)
  apply (rename_tac cfg matching u1 publicExists tc u2 mw pm rm pages rw rd hd meta)
  apply (case_tac meta)
  apply (rule_tac x = cfg in exI, rule_tac x = pm in exI, rule_tac x = pages in exI)
  apply (rule_tac x = "fst meta" in exI)
  apply clarsimp
  apply (simp split: option.split)
  done

lemma codegenPublicDirectory_Inr:
  assumes "codegenPublicDirectory u w srcDir dstDir ctxSite ctxProject = Inr m"
  shows "\<exists>trees c toCopy.
           prepareMaterializer u w srcDir dstDir ctxSite ctxProject = Inr (trees, c, toCopy) \<and>
           routeOutcomes m = map (\<lambda>entry. (fst entry, copyRoute u w c entry)) toCopy"
  using assms unfolding codegenPublicDirectory_def
  by (auto elim!: awaitE)


section \<open>Reasons named after routes\<close>

lemma classify_reasons_of:
  assumes "classify u w = Inr (reasons, result)"
  shows "readPrerenderManifest w = Inr pm \<Longrightarrow> dynamicRoutes pm = Some d \<Longrightarrow>
           (pattern, dr) \<in> set d \<Longrightarrow> fallback dr \<noteq> FallbackFalse \<Longrightarrow>
           ''use of fallback '' @ pattern \<in> set reasons"
    and "readPrerenderManifest w = Inr pm \<Longrightarrow> (path, route) \<in> set (routes pm) \<Longrightarrow>
           revalidates (initialRevalidateSeconds route) \<Longrightarrow>
           ''use of revalidate '' @ template (srcRoute route) \<in> set reasons"
    and "getConfig u w = Inr cfg \<Longrightarrow> readAppPathRoutesManifest w = Inr aprm \<Longrightarrow>
           getAppMetadataFromMetaFiles w (distDir cfg) (basePath cfg) aprm = Inr (hm, ppr) \<Longrightarrow>
           r \<in> set ppr \<Longrightarrow> ''route with PPR '' @ r \<in> set reasons"
    and "x \<in> set reasons \<Longrightarrow> wantsBackend result"
proof -
  from classify_reasons[OF assms] obtain mw img pm' pages d' manifest ppr' comps acts where
    r: "readPrerenderManifest w = Inr pm'" "dynamicRoutes pm' = Some d'" and
    p: "\<forall>cfg m hm p. getConfig u w = Inr cfg \<longrightarrow> readAppPathRoutesManifest w = Inr m \<longrightarrow>
              getAppMetadataFromMetaFiles w (distDir cfg) (basePath cfg) m = Inr (hm, p) \<longrightarrow>
              ppr' = p" and
    s: "set reasons =
             set (reasonsAfterApp u manifest []) \<union>
             set (reasonsBeforeApp u mw img pm' pages d' manifest) \<union>
             (\<lambda>r. ''route with PPR '' @ r) ` set ppr' \<union>
             (\<lambda>k. ''non-static component '' @ k) ` set comps \<union>
             (\<lambda>k. ''route with server action '' @ k) ` set acts" and
    wb: "wantsBackend result = (reasons \<noteq> [])"
    by (elim exE conjE) (rule that)
  have before: "\<And>y. y \<in> set (reasonsBeforeApp u mw img pm' pages d' manifest) \<Longrightarrow>
                  y \<in> set reasons"
    unfolding s by blast
  {
    assume a: "readPrerenderManifest w = Inr pm" "dynamicRoutes pm = Some d"
      "(pattern, dr) \<in> set d" "fallback dr \<noteq> FallbackFalse"
    with r have [simp]: "pm' = pm" "d' = d" by simp_all
    have "''use of fallback '' @ pattern \<in>
            (\<lambda>p. ''use of fallback '' @ fst p) `
              {p \<in> set (case dynamicRoutes pm of None \<Rightarrow> [] | Some d \<Rightarrow> d).
                 fallback (snd p) \<noteq> FallbackFalse}"
      using a(2-4) by (intro image_eqI[of _ _ "(pattern, dr)"]) simp_all
    then show "''use of fallback '' @ pattern \<in> set reasons"
      by (intro before) (simp only: set_reasonsBeforeApp \<open>pm' = pm\<close> Un_iff, blast)
  }
  {
    assume a: "readPrerenderManifest w = Inr pm" "(path, route) \<in> set (routes pm)"
      "revalidates (initialRevalidateSeconds route)"
    with r have [simp]: "pm' = pm" by simp
    have "''use of revalidate '' @ template (srcRoute route) \<in>
            (\<lambda>p. ''use of revalidate '' @ template (srcRoute (snd p))) `
              {p \<in> set (routes pm). revalidates (initialRevalidateSeconds (snd p))}"
      using a(2,3) by (intro image_eqI[of _ _ "(path, route)"]) simp_all
    then show "''use of revalidate '' @ template (srcRoute route) \<in> set reasons"
      by (intro before) (simp only: set_reasonsBeforeApp \<open>pm' = pm\<close> Un_iff, blast)
  }
  {
    assume "getConfig u w = Inr cfg" "readAppPathRoutesManifest w = Inr aprm"
      "getAppMetadataFromMetaFiles w (distDir cfg) (basePath cfg) aprm = Inr (hm, ppr)"
      "r \<in> set ppr"
    with p have "r \<in> set ppr'" by blast
    then show "''route with PPR '' @ r \<in> set reasons"
      unfolding s by blast
  }
  {
    assume "x \<in> set reasons"
    then show "wantsBackend result"
      unfolding wb by auto
  }
qed

section \<open>Locales of a path\<close>

lemma route_log_thenCopy: "route_log (thenCopy u w kind src dest acc) = route_log acc"
  by (auto simp: thenCopy_def split: option.splits)

lemma route_log_copyArtifacts:
  "route_log (copyArtifacts u w c path route sourcePath localized dflt) = []"
  by (simp add: copyArtifacts_def Let_def route_log_thenCopy)

lemma copyRoute_not_revalidate_skip:
  assumes "\<not> revalidates (initialRevalidateSeconds route)"
  shows "route_log (copyRoute u w c (path, route)) \<noteq>
           [Debug (''skipping '' @ path @ '' due to revalidate'')]"
proof -
  define P where "P oc \<longleftrightarrow>
    route_log oc \<noteq> [Debug (''skipping '' @ path @ '' due to revalidate'')]" for oc :: route_outcome
  have branch: "\<And>b x y. P x \<Longrightarrow> P y \<Longrightarrow> P (if b then x else y)"
    by simp
  have first: "\<And>x y. P y \<Longrightarrow> P (if revalidates (initialRevalidateSeconds route) then x else y)"
    using assms by simp
  have copies: "\<And>sp l d. P (copyArtifacts u w c path route sp l d)"
    unfolding P_def by (simp add: route_log_copyArtifacts)
  have skips:
    "P (skipped (Debug (''skipping '' @ path @
          '' due to it matching an unsupported rewrite/redirect/header or middlware'')))"
    "P (skipped (Debug (''skipping '' @ path @ '' due to server action'')))"
    "P (skipped (Debug (''skipping '' @ path @
          '' since it is for a locale not deployed on this domain'')))"
    "P (skipped (Debug (''skipping '' @ path @ '' due to ppr'')))"
    "P (skipped (ConsoleError
          (''Cannot find '' @ path @ '' in your compiled Next.js application.'')))"
    unfolding P_def by (simp_all add: skipped_def)
  have "P (copyRoute u w c (path, route))"
    unfolding copyRoute_cases
    by (rule first) (intro branch skips copies)
  then show ?thesis unfolding P_def .
qed

lemma locale_of_path:
  assumes "c_i18n c = Some i" and "sourcePartsOf path = locale # rest"
    and "locale \<in> set (locales i)"
  shows "localeOf c path = Some locale"
    and "destPartsOrIndex c path = (if rest \<noteq> [] then rest else [''index''])"
  using assms by (simp_all add: localeOf_def destPartsOrIndex_def Let_def)


section \<open>Runs on the example worlds\<close>

lemmas run_classify =
  classify_def getConfig_def await_def Let_def fallbackReasons_def revalidateReasons_def
  appDirectory_def catch_undefined_def keys_def hasAfterFilesOrFallback_def Set_size_def
  addIf_def Set_add_def example_utils_def example_world_def about_page_def static_result_def

lemmas run_build =
  build_def build_listing_def prepareBuild_def processEnv_def ctx_projectId_def ctx_site_def
  ctx_hostingChannel_def listReasons_def truthy_def DEFAULT_NUMBER_OF_REASONS_TO_LIST_def


lemma classify_middleware_world:
  "classify example_utils middleware_world =
     Inr ([''middleware''], static_result\<lparr>wantsBackend := True\<rparr>)"
  by (simp add: run_classify middleware_world_def)

lemma classify_afterFiles_world:
  "classify example_utils afterFiles_world =
     Inr ([''advanced rewrites''], static_result\<lparr>wantsBackend := True\<rparr>)"
  by (simp add: run_classify afterFiles_world_def plain_rewrite_def conditional_redirect_def)

lemma classify_advanced_rules_world:
  "classify example_utils advanced_rules_world =
     Inr ([''advanced headers'', ''advanced redirects'', ''advanced rewrites''],
          static_result\<lparr>wantsBackend := True,
            hosting_rewrites := [\<lparr>rw_source = ''/old'', rw_destination = ''/new''\<rparr>]\<rparr>)"
  by (simp add: run_classify advanced_rules_world_def advanced_rules_manifest_def
      plain_rewrite_def conditional_redirect_def conditional_rewrite_def
      conditional_header_def)

lemma classify_failed_build_world:
  "classify example_utils failed_build_world = Inr ([], static_result)"
  by (simp add: run_classify failed_build_world_def)


lemma prepareBuild_example:
  "prepareBuild example_utils example_world None = Inr (''next'', [])"
  by (simp add: run_build example_world_def example_utils_def await_def)


section \<open>Runs of the materializer on the example worlds\<close>

lemmas run_prepare =
  prepareMaterializer_def getConfig_def await_def attempt_def Let_def routesToCopy_def
  pagesManifestLikePrerender_def fromEntries_def spread_def endsWith_def
  example_utils_def example_world_def with_routes_def with_i18n_def join_slash_def
  example_captured_def

lemmas run_copyRoute =
  copyRoute_def copyArtifacts_def thenCopy_def skipped_def extended_def truthy_def
  template_def appPathRouteOf_def sourcePartsOf_def localeOf_def includeOnThisDomain_def
  isDefaultLocale_def destPartsOrIndex_def sourcePartsOrIndex_def localizedDestPath_def
  defaultDestPath_def contentDistOf_def sourcePathOf_def Let_def endsWith_def
  example_utils_def example_world_def with_routes_def with_i18n_def join_slash_def
  example_captured_def page_copy_def plain_page_def

lemma prepare_example_world:
  "prepareMaterializer example_utils example_world ''src'' ''dst'' ''site'' ''project'' =
     Inr ([(''src/.next/static'', ''dst/_next/static'')], example_captured,
          [(''/about'', about_page)])"
  by (simp add: run_prepare)

lemma copy_example_about:
  "copyRoute example_utils example_world example_captured (''/about'', about_page) =
     \<lparr>route_log = [],
      copied = [(Page, ''src/.next/server/pages/about.html'', ''dst/about.html''),
                (Data, ''src/.next/server/pages/about.json'', ''dst/_data/about.json'')],
      rejected = None\<rparr>"
  by (simp add: run_copyRoute about_page_def)

lemma classify_blog_world:
  "classify example_utils blog_world =
     Inr ([''use of fallback /blog/[slug]''], static_result\<lparr>wantsBackend := True\<rparr>)"
  by (simp add: run_classify blog_world_def with_routes_def plain_page_def)

lemma prepare_blog_world:
  "prepareMaterializer example_utils blog_world ''src'' ''dst'' ''site'' ''project'' =
     Inr ([(''src/.next/static'', ''dst/_next/static'')], example_captured,
          [(''/blog/first'', plain_page\<lparr>srcRoute := Some ''/blog/[slug]''\<rparr>)])"
  by (simp add: run_prepare blog_world_def)

lemma copy_blog_first:
  "copyRoute example_utils blog_world example_captured
     (''/blog/first'', plain_page\<lparr>srcRoute := Some ''/blog/[slug]''\<rparr>) =
   page_copy ''src/.next/server/pages/blog/first.html'' ''dst/blog/first.html''"
  by (simp add: run_copyRoute blog_world_def)

lemma prepare_pattern_as_route_world:
  "prepareMaterializer example_utils pattern_as_route_world ''src'' ''dst'' ''site'' ''project'' =
     Inr ([(''src/.next/static'', ''dst/_next/static'')], example_captured,
          [(''/blog/[slug]'', plain_page)])"
  by (simp add: run_prepare pattern_as_route_world_def)

lemma copy_pattern_as_route:
  "copyRoute example_utils pattern_as_route_world example_captured (''/blog/[slug]'', plain_page) =
   page_copy ''src/.next/server/pages/blog/[slug].html'' ''dst/blog/[slug].html''"
  by (simp add: run_copyRoute pattern_as_route_world_def)

lemma classify_news_world:
  "classify example_utils news_world =
     Inr ([''use of revalidate null''], static_result\<lparr>wantsBackend := True\<rparr>)"
  by (simp add: run_classify news_world_def with_routes_def plain_page_def template_def)

lemma prepare_news_world:
  "prepareMaterializer example_utils news_world ''src'' ''dst'' ''site'' ''project'' =
     Inr ([(''src/.next/static'', ''dst/_next/static'')], example_captured,
          [(''/news'', plain_page\<lparr>initialRevalidateSeconds := RevalidateSeconds 60\<rparr>)])"
  by (simp add: run_prepare news_world_def)

lemma prepare_news_html_world:
  "prepareMaterializer example_utils news_html_world ''src'' ''dst'' ''site'' ''project'' =
     Inr ([(''src/.next/static'', ''dst/_next/static'')], example_captured,
          [(''/news'', staticPage)])"
  by (simp add: run_prepare news_html_world_def news_world_def)

lemma copy_news_html:
  "copyRoute example_utils news_html_world example_captured (''/news'', staticPage) =
   page_copy ''src/.next/server/pages/news.html'' ''dst/news.html''"
  by (simp add: run_copyRoute news_html_world_def news_world_def staticPage_def)

lemma config_english_french_world:
  "getConfig example_utils english_french_world =
     Inr \<lparr>distDir = ''.next'', cfg_trailingSlash = False, basePath = ''/'',
          cfg_i18n = Some english_french\<rparr>"
  by (simp add: getConfig_def await_def english_french_world_def with_i18n_def
      with_routes_def example_world_def example_utils_def)

lemma prepare_english_french_world:
  "prepareMaterializer example_utils english_french_world ''src'' ''dst'' ''site'' ''project'' =
     Inr ([(''src/.next/static'', ''dst/_next/static'')], english_french_captured,
          [(''/en/about'', plain_page),
           (''/fr/about'', page_with_data ''/_next/data/build/fr/about.json''),
           (''/de/about'', plain_page)])"
  by (simp add: run_prepare english_french_world_def english_french_def
      english_french_captured_def)

lemma copy_english_french:
  "copyRoute example_utils english_french_world english_french_captured
     (''/fr/about'', page_with_data ''/_next/data/build/fr/about.json'') =
   \<lparr>route_log = [],
    copied = [(Page, ''src/.next/server/pages/fr/about.html'', ''dst/i18n_root/fr/about.html''),
              (Data, ''src/.next/server/pages/fr/about.json'',
               ''dst/_next/data/build/fr/about.json'')],
    rejected = None\<rparr>"
  "copyRoute example_utils english_french_world english_french_captured
     (''/de/about'', plain_page) =
   skipped (Debug ''skipping /de/about since it is for a locale not deployed on this domain'')"
  "copyRoute example_utils english_french_world english_french_captured
     (''/en/about'', plain_page) =
   \<lparr>route_log = [],
    copied = [(Page, ''src/.next/server/pages/en/about.html'', ''dst/i18n_root/en/about.html''),
              (Page, ''src/.next/server/pages/en/about.html'', ''dst/about.html'')],
    rejected = None\<rparr>"
  by (simp_all add: run_copyRoute english_french_world_def english_french_def
      english_french_captured_def page_with_data_def)

lemma prepare_dutch_world:
  "prepareMaterializer example_utils dutch_world ''src'' ''dst'' ''site'' ''project'' =
     Inr ([(''src/.next/static'', ''dst/_next/static'')], dutch_captured,
          [(''/nl/about'', plain_page),
           (''/be/about'', page_with_data ''/_next/data/build/be/about.json'')])"
  by (simp add: run_prepare dutch_world_def dutch_def dutch_captured_def)

lemma copy_dutch:
  "copyRoute example_utils dutch_world dutch_captured (''/nl/about'', plain_page) =
   page_copy ''src/.next/server/pages/nl/about.html'' ''dst/about.html''"
  "copyRoute example_utils dutch_world dutch_captured
     (''/be/about'', page_with_data ''/_next/data/build/be/about.json'') =
   \<lparr>route_log = [],
    copied = [(Data, ''src/.next/server/pages/be/about.json'',
               ''dst/_next/data/build/be/about.json'')],
    rejected = None\<rparr>"
  by (simp_all add: run_copyRoute dutch_world_def dutch_def dutch_captured_def
      page_with_data_def)

lemma classify_dash_world:
  "classify example_utils dash_world =
     Inr ([''route with PPR /dash''], static_result\<lparr>wantsBackend := True\<rparr>)"
  by (simp add: run_classify dash_world_def with_routes_def plain_page_def)

lemma prepare_dash_world:
  "prepareMaterializer example_utils dash_world ''src'' ''dst'' ''site'' ''project'' =
     Inr ([(''src/.next/static'', ''dst/_next/static'')], dash_captured,
          [(''/dash'', plain_page\<lparr>srcRoute := Some ''/dash''\<rparr>)])"
  by (simp add: run_prepare dash_world_def dash_captured_def)

lemma copy_dash:
  "copyRoute example_utils dash_world dash_captured
     (''/dash'', plain_page\<lparr>srcRoute := Some ''/dash''\<rparr>) =
   skipped (Debug ''skipping /dash due to ppr'')"
  by (simp add: run_copyRoute dash_world_def dash_captured_def)

lemma prepare_dash_file_world:
  "prepareMaterializer example_utils dash_file_world ''src'' ''dst'' ''site'' ''project'' =
     Inr ([(''src/.next/static'', ''dst/_next/static'')], dash_captured,
          [(''/dash'', plain_page\<lparr>srcRoute := Some ''/dash''\<rparr>)])"
  by (simp add: run_prepare dash_file_world_def dash_world_def dash_captured_def)

lemma copy_dash_file:
  "copyRoute example_utils dash_file_world dash_captured
     (''/dash'', plain_page\<lparr>srcRoute := Some ''/dash''\<rparr>) =
   page_copy ''src/.next/server/app/dash'' ''dst/dash''"
  by (simp add: run_copyRoute dash_file_world_def dash_world_def dash_captured_def)

lemma codegen_of_prepare:
  "prepareMaterializer u w srcDir dstDir ctxSite ctxProject = Inr (trees, c, toCopy) \<Longrightarrow>
   codegenPublicDirectory u w srcDir dstDir ctxSite ctxProject =
     Inr \<lparr>treeCopies = trees,
          routeOutcomes = map (\<lambda>entry. (fst entry, copyRoute u w c entry)) toCopy\<rparr>"
  by (simp add: codegenPublicDirectory_def await_def)


section \<open>The claims about \<^verbatim>\<open>build\<close>\<close>

text \<open>
  Claim C1. In every classification pass the flag \<open>wantsBackend\<close> of the result is true
  exactly when the set of reasons gathered in the pass is not empty. The number of
  reasons listed (5 in \<open>build\<close>, any \<open>limit\<close> in \<open>build_listing\<close>) changes nothing of
  what is returned, and what \<open>build\<close> returns is the result of the pass.
\<close>

theorem build_wantsBackend_iff_reasons:
  "(classify u w = Inr (reasons, result) \<longrightarrow> wantsBackend result = (reasons \<noteq> [])) \<and>
   snd (build_listing limit u w ctx) = snd (build u w ctx) \<and>
   (snd (build u w ctx) = Inr result' \<longrightarrow> (\<exists>rs. classify u w = Inr (rs, result')))"
proof (intro conjI impI)
  assume "classify u w = Inr (reasons, result)"
  then show "wantsBackend result = (reasons \<noteq> [])" by (rule classify_wantsBackend)
next
  show "snd (build_listing limit u w ctx) = snd (build u w ctx)"
    by (simp only: build_def build_listing_result)
next
  assume "snd (build u w ctx) = Inr result'"
  then show "\<exists>rs. classify u w = Inr (rs, result')"
    unfolding build_def build_listing_result
    by (cases "classify u w") (auto split: sum.splits prod.splits child_end.splits)
qed

text \<open>
  C1 on a site that uses middleware: one reason, the flag is set, and listing no
  reason at all returns the same value.
\<close>

theorem build_wantsBackend_iff_reasons_witness:
  "classify example_utils middleware_world =
     Inr ([''middleware''], static_result\<lparr>wantsBackend := True\<rparr>) \<and>
   wantsBackend (static_result\<lparr>wantsBackend := True\<rparr>) \<and>
   snd (build_listing 0 example_utils middleware_world None) =
     snd (build example_utils middleware_world None) \<and>
   snd (build example_utils middleware_world None) = Inr (static_result\<lparr>wantsBackend := True\<rparr>)"
  using build_wantsBackend_iff_reasons[of example_utils middleware_world "[''middleware'']"
      "static_result\<lparr>wantsBackend := True\<rparr>" 0 None "static_result\<lparr>wantsBackend := True\<rparr>"]
    classify_middleware_world
  by (simp add: build_listing_result)
     (simp add: run_build middleware_world_def example_world_def example_utils_def await_def)

text \<open>
  Claim C2, as the code has it. After a pass that succeeds, the reason
  \<^verbatim>\<open>advanced headers\<close> is in the set once if some header, after \<^verbatim>\<open>cleanI18n\<close>, is not
  supported, and not at all otherwise; \<^verbatim>\<open>advanced redirects\<close> is in the set once if some
  redirect that is not internal is not supported, and not at all otherwise;
  \<^verbatim>\<open>advanced rewrites\<close> is in the set once if the rewrites are an object with after-files
  or fallback rules or if some rule of \<^verbatim>\<open>getNextjsRewritesToUse\<close> is not supported, and not
  at all otherwise. The number of rules plays no part.
\<close>

theorem rule_category_reasons:
  assumes "classify u w = Inr (reasons, result)" and "readRoutesManifest w = Inr manifest"
  shows "count_list reasons ''advanced headers'' =
           (if list_all (isHeaderSupportedByHosting u)
                 (map (cleanI18n_header u)
                    (case rm_headers manifest of None \<Rightarrow> [] | Some hs \<Rightarrow> hs))
            then 0 else 1) \<and>
         count_list reasons ''advanced redirects'' =
           (if list_all (isRedirectSupportedByHosting u)
                 (filter (\<lambda>it. \<not> r_internal it)
                    (case rm_redirects manifest of None \<Rightarrow> [] | Some rs \<Rightarrow> rs))
            then 0 else 1) \<and>
         count_list reasons ''advanced rewrites'' =
           (if hasAfterFilesOrFallback
                 (case rm_rewrites manifest of None \<Rightarrow> RewritesArray [] | Some rw \<Rightarrow> rw) \<or>
               \<not> list_all (isRewriteSupportedByHosting u)
                   (getNextjsRewritesToUse u
                      (case rm_rewrites manifest of None \<Rightarrow> RewritesArray [] | Some rw \<Rightarrow> rw))
            then 1 else 0)"
  using reasons_membership[OF assms] classify_distinct[OF assms(1)]
  by (simp add: count_list_distinct)

text \<open>
  C2 on a manifest with two unsupported headers, two unsupported redirects and two
  unsupported rewrites among three: each reason is there once.
\<close>

theorem rule_category_reasons_witness:
  "classify example_utils advanced_rules_world =
     Inr ([''advanced headers'', ''advanced redirects'', ''advanced rewrites''],
          static_result\<lparr>wantsBackend := True,
            hosting_rewrites := [\<lparr>rw_source = ''/old'', rw_destination = ''/new''\<rparr>]\<rparr>) \<and>
   readRoutesManifest advanced_rules_world = Inr advanced_rules_manifest \<and>
   count_list [''advanced headers'', ''advanced redirects'', ''advanced rewrites'']
     ''advanced headers'' = 1 \<and>
   count_list [''advanced headers'', ''advanced redirects'', ''advanced rewrites'']
     ''advanced redirects'' = 1 \<and>
   count_list [''advanced headers'', ''advanced redirects'', ''advanced rewrites'']
     ''advanced rewrites'' = 1"
proof -
  have m: "readRoutesManifest advanced_rules_world = Inr advanced_rules_manifest"
    by (simp add: advanced_rules_world_def)
  from rule_category_reasons[OF classify_advanced_rules_world m]
  show ?thesis using classify_advanced_rules_world m by simp
qed

text \<open>
  C2 as the claim states it fails: with every rewrite supported, an after-files rule
  still brings the reason \<^verbatim>\<open>advanced rewrites\<close>; and an unsupported redirect that is
  internal brings no reason.
\<close>

theorem rule_category_counterexample:
  "list_all (isRewriteSupportedByHosting example_utils) [plain_rewrite] \<and>
   readRoutesManifest afterFiles_world =
     Inr \<lparr>rm_headers = None, rm_redirects = Some [conditional_redirect True],
          rm_rewrites = Some (RewritesObject (Some []) (Some [plain_rewrite]) None),
          rm_i18n = None\<rparr> \<and>
   \<not> isRedirectSupportedByHosting example_utils (conditional_redirect True) \<and>
   map_sum id fst (classify example_utils afterFiles_world) = Inr [''advanced rewrites'']"
  by (simp add: classify_afterFiles_world)
     (simp add: afterFiles_world_def example_utils_def plain_rewrite_def
       conditional_redirect_def)

text \<open>
  Claim C7, as the code has it. Once the child process is spawned: when it emits an
  error, \<open>build\<close> throws one \<open>FirebaseError\<close> that wraps it, whatever the manifests hold
  (none is read); when it exits, with whatever code, \<open>build\<close> goes on and returns what
  the classification pass gives.
\<close>

theorem build_child_failure:
  assumes "prepareBuild u w ctx = Inr (cli, env)"
  shows "(ending (spawn w cli env) = ChildError err \<longrightarrow>
            build u w ctx =
              (map Info (child_output (spawn w cli env)),
               Inl (FirebaseError (''Unable to build your Next.js app: '' @ err)))) \<and>
         (ending (spawn w cli env) = ChildExit code \<longrightarrow>
            snd (build u w ctx) = map_sum id snd (classify u w))"
  using assms by (simp add: build_def build_listing_def Let_def split: sum.splits)

text \<open>
  C7 when the \<^verbatim>\<open>next\<close> binary cannot be spawned.
\<close>

theorem build_child_failure_witness:
  "prepareBuild example_utils no_binary_world None = Inr (''next'', []) \<and>
   ending (spawn no_binary_world ''next'' []) = ChildError ''Error: spawn next ENOENT'' \<and>
   build example_utils no_binary_world None =
     ([], Inl (FirebaseError ''Unable to build your Next.js app: Error: spawn next ENOENT''))"
proof -
  have p: "prepareBuild example_utils no_binary_world None = Inr (''next'', [])"
    by (simp add: run_build no_binary_world_def example_world_def example_utils_def await_def)
  have e: "ending (spawn no_binary_world ''next'' []) = ChildError ''Error: spawn next ENOENT''"
    "child_output (spawn no_binary_world ''next'' []) = []"
    by (simp_all add: no_binary_world_def)
  from build_child_failure[OF p, of "''Error: spawn next ENOENT''" 0] p e
  show ?thesis by simp
qed

text \<open>
  C7 as the claim states it fails: the child exits with code 1 and \<open>build\<close> returns a
  result.
\<close>

theorem build_child_failure_counterexample:
  "ending (spawn failed_build_world ''next'' []) = ChildExit 1 \<and>
   build example_utils failed_build_world None = ([Info ''Failed to compile.''], Inr static_result)"
proof -
  have p: "prepareBuild example_utils failed_build_world None = Inr (''next'', [])"
    by (simp add: run_build failed_build_world_def example_world_def example_utils_def await_def)
  have e: "ending (spawn failed_build_world ''next'' []) = ChildExit 1"
    "child_output (spawn failed_build_world ''next'' []) = [''Failed to compile.'']"
    by (simp_all add: failed_build_world_def)
  from build_of_exit[OF p e(1) classify_failed_build_world] e
  show ?thesis by (simp add: listReasons_empty)
qed




section \<open>The claims about the static materializer\<close>

text \<open>
  Claim C3, as the code has it. For an entry of \<^verbatim>\<open>dynamicRoutes\<close> whose fallback is not
  \<^verbatim>\<open>false\<close>, a pass that succeeds has the reason \<^verbatim>\<open>use of fallback <pattern>\<close> and
  \<open>wantsBackend\<close> is true. The materializer never reads \<^verbatim>\<open>dynamicRoutes\<close>: it runs its
  closure on the keys of \<^verbatim>\<open>prerenderManifest.routes\<close> and on the pages of the pages
  manifest that are literal HTML, so the pattern is not among the routes it handles
  unless the pattern is one of those keys.
\<close>

theorem fallback_routes:
  assumes "readPrerenderManifest w = Inr pm" and "dynamicRoutes pm = Some d"
    and "(pattern, dr) \<in> set d" and "fallback dr \<noteq> FallbackFalse"
  shows "(classify u w = Inr (reasons, result) \<longrightarrow>
            ''use of fallback '' @ pattern \<in> set reasons \<and> wantsBackend result) \<and>
         (codegenPublicDirectory u w srcDir dstDir ctxSite ctxProject = Inr m \<and>
          readPagesManifest w = Inr pages \<and> pattern \<notin> set (keys (routes pm)) \<and>
          \<not> (\<exists>src. (pattern, src) \<in> set pages \<and> endsWith src ''.html'') \<longrightarrow>
            pattern \<notin> fst ` set (routeOutcomes m))"
proof (intro conjI impI)
  assume c: "classify u w = Inr (reasons, result)"
  show r: "''use of fallback '' @ pattern \<in> set reasons"
    using classify_reasons_of(1)[OF c assms] .
  show "wantsBackend result"
    using classify_reasons_of(4)[OF c r] .
next
  assume a: "codegenPublicDirectory u w srcDir dstDir ctxSite ctxProject = Inr m \<and>
          readPagesManifest w = Inr pages \<and> pattern \<notin> set (keys (routes pm)) \<and>
          \<not> (\<exists>src. (pattern, src) \<in> set pages \<and> endsWith src ''.html'')"
  from codegenPublicDirectory_Inr[of u w srcDir dstDir ctxSite ctxProject m] a
  obtain trees c toCopy where
    p: "prepareMaterializer u w srcDir dstDir ctxSite ctxProject = Inr (trees, c, toCopy)" and
    o: "routeOutcomes m = map (\<lambda>entry. (fst entry, copyRoute u w c entry)) toCopy"
    by blast
  from prepareMaterializer_Inr[OF p] assms(1) a have t: "toCopy = routesToCopy pm pages"
    by auto
  have "fst ` set (routeOutcomes m) = set (keys toCopy)"
    unfolding o by (simp add: keys_def image_image)
  with a show "pattern \<notin> fst ` set (routeOutcomes m)"
    unfolding t routesToCopy_keys by blast
qed

text \<open>
  C3 on a blog whose dynamic route has a fallback: the reason is there, and the
  materializer handles the prerendered post only, not the pattern.
\<close>

theorem fallback_routes_witness:
  "classify example_utils blog_world =
     Inr ([''use of fallback /blog/[slug]''], static_result\<lparr>wantsBackend := True\<rparr>) \<and>
   ''use of fallback /blog/[slug]'' \<in> set [''use of fallback /blog/[slug]''] \<and>
   wantsBackend (static_result\<lparr>wantsBackend := True\<rparr>) \<and>
   codegenPublicDirectory example_utils blog_world ''src'' ''dst'' ''site'' ''project'' =
     Inr \<lparr>treeCopies = [(''src/.next/static'', ''dst/_next/static'')],
          routeOutcomes =
            [(''/blog/first'',
              page_copy ''src/.next/server/pages/blog/first.html'' ''dst/blog/first.html'')]\<rparr> \<and>
   ''/blog/[slug]'' \<notin> fst ` set
       [(''/blog/first'',
         page_copy ''src/.next/server/pages/blog/first.html'' ''dst/blog/first.html'')]"
proof -
  let ?pm = "\<lparr>routes = [(''/blog/first'', plain_page\<lparr>srcRoute := Some ''/blog/[slug]''\<rparr>)],
              dynamicRoutes = Some [(''/blog/[slug]'', \<lparr>fallback = FallbackTrue\<rparr>)]\<rparr>"
  let ?m = "\<lparr>treeCopies = [(''src/.next/static'', ''dst/_next/static'')],
          routeOutcomes =
            [(''/blog/first'',
              page_copy ''src/.next/server/pages/blog/first.html'' ''dst/blog/first.html'')]\<rparr>"
  have pm: "readPrerenderManifest blog_world = Inr ?pm"
    by (simp add: blog_world_def with_routes_def)
  have pages: "readPagesManifest blog_world = Inr []"
    by (simp add: blog_world_def with_routes_def example_world_def)
  have m: "codegenPublicDirectory example_utils blog_world ''src'' ''dst'' ''site'' ''project''
             = Inr ?m"
    by (simp add: codegen_of_prepare[OF prepare_blog_world] copy_blog_first)
  from fallback_routes[OF pm, of "[(''/blog/[slug]'', \<lparr>fallback = FallbackTrue\<rparr>)]"
      "''/blog/[slug]''" "\<lparr>fallback = FallbackTrue\<rparr>" example_utils
      "[''use of fallback /blog/[slug]'']" "static_result\<lparr>wantsBackend := True\<rparr>"
      "''src''" "''dst''" "''site''" "''project''" ?m "[]"]
  show ?thesis
    using classify_blog_world m pages by (simp add: keys_def)
qed

text \<open>
  C3 as the claim states it fails: a pattern with a fallback that is also a key of
  \<^verbatim>\<open>prerenderManifest.routes\<close> is copied like any other route.
\<close>

theorem fallback_routes_counterexample:
  "readPrerenderManifest pattern_as_route_world =
     Inr \<lparr>routes = [(''/blog/[slug]'', plain_page)],
          dynamicRoutes = Some [(''/blog/[slug]'', \<lparr>fallback = FallbackTrue\<rparr>)]\<rparr> \<and>
   codegenPublicDirectory example_utils pattern_as_route_world ''src'' ''dst'' ''site''
       ''project'' =
     Inr \<lparr>treeCopies = [(''src/.next/static'', ''dst/_next/static'')],
          routeOutcomes =
            [(''/blog/[slug]'',
              page_copy ''src/.next/server/pages/blog/[slug].html'' ''dst/blog/[slug].html'')]\<rparr>"
  by (simp add: codegen_of_prepare[OF prepare_pattern_as_route_world] copy_pattern_as_route)
     (simp add: pattern_as_route_world_def with_routes_def)

text \<open>
  Claim C4, as the code has it. For an entry of \<^verbatim>\<open>prerenderManifest.routes\<close> whose
  \<^verbatim>\<open>initialRevalidateSeconds\<close> is truthy, a pass that succeeds has the reason
  \<^verbatim>\<open>use of revalidate <srcRoute>\<close> and \<open>wantsBackend\<close> is true. The materializer runs its
  closure on the route and copies nothing for it, unless the same path is a page of the
  pages manifest that is literal HTML.
\<close>

theorem revalidating_routes:
  assumes "readPrerenderManifest w = Inr pm" and "(path, route) \<in> set (routes pm)"
    and "revalidates (initialRevalidateSeconds route)"
  shows "(classify u w = Inr (reasons, result) \<longrightarrow>
            ''use of revalidate '' @ template (srcRoute route) \<in> set reasons \<and>
            wantsBackend result) \<and>
         (codegenPublicDirectory u w srcDir dstDir ctxSite ctxProject = Inr m \<and>
          readPagesManifest w = Inr pages \<and> distinct (keys (routes pm)) \<and>
          \<not> (\<exists>src. (path, src) \<in> set pages \<and> endsWith src ''.html'') \<longrightarrow>
            path \<in> fst ` set (routeOutcomes m) \<and>
            (\<forall>oc. (path, oc) \<in> set (routeOutcomes m) \<longrightarrow> copied oc = []))"
proof (intro conjI impI allI)
  assume c: "classify u w = Inr (reasons, result)"
  show r: "''use of revalidate '' @ template (srcRoute route) \<in> set reasons"
    using classify_reasons_of(2)[OF c assms] .
  show "wantsBackend result"
    using classify_reasons_of(4)[OF c r] .
next
  assume a: "codegenPublicDirectory u w srcDir dstDir ctxSite ctxProject = Inr m \<and>
          readPagesManifest w = Inr pages \<and> distinct (keys (routes pm)) \<and>
          \<not> (\<exists>src. (path, src) \<in> set pages \<and> endsWith src ''.html'')"
  from codegenPublicDirectory_Inr[of u w srcDir dstDir ctxSite ctxProject m] a
  obtain trees c toCopy where
    p: "prepareMaterializer u w srcDir dstDir ctxSite ctxProject = Inr (trees, c, toCopy)" and
    o: "routeOutcomes m = map (\<lambda>entry. (fst entry, copyRoute u w c entry)) toCopy"
    by blast
  from prepareMaterializer_Inr[OF p] assms(1) a have t: "toCopy = routesToCopy pm pages"
    by auto
  have k: "fst ` set (routeOutcomes m) = set (keys toCopy)"
    unfolding o by (simp add: keys_def image_image)
  from assms(2) have "path \<in> set (keys (routes pm))"
    by (force simp: keys_def)
  then show "path \<in> fst ` set (routeOutcomes m)"
    unfolding k t routesToCopy_keys by blast
  fix oc
  assume "(path, oc) \<in> set (routeOutcomes m)"
  then obtain route' where e: "(path, route') \<in> set toCopy"
    and oc: "oc = copyRoute u w c (path, route')"
    unfolding o by auto
  from routesToCopy_keep[of pm path route pages route'] a assms(2) e
  have "route' = route" unfolding t by blast
  with assms(3) show "copied oc = []"
    unfolding oc by (simp add: copyRoute_revalidate)
qed

text \<open>
  C4 on a page that revalidates every 60 seconds: the reason names its \<open>srcRoute\<close>
  (\<^verbatim>\<open>null\<close> here) and the closure skips the page.
\<close>

theorem revalidating_routes_witness:
  "classify example_utils news_world =
     Inr ([''use of revalidate null''], static_result\<lparr>wantsBackend := True\<rparr>) \<and>
   ''use of revalidate null'' \<in> set [''use of revalidate null''] \<and>
   codegenPublicDirectory example_utils news_world ''src'' ''dst'' ''site'' ''project'' =
     Inr \<lparr>treeCopies = [(''src/.next/static'', ''dst/_next/static'')],
          routeOutcomes =
            [(''/news'', skipped (Debug ''skipping /news due to revalidate''))]\<rparr> \<and>
   copied (skipped (Debug ''skipping /news due to revalidate'')) = []"
proof -
  let ?route = "plain_page\<lparr>initialRevalidateSeconds := RevalidateSeconds 60\<rparr>"
  let ?pm = "\<lparr>routes = [(''/news'', ?route)], dynamicRoutes = Some []\<rparr>"
  let ?m = "\<lparr>treeCopies = [(''src/.next/static'', ''dst/_next/static'')],
          routeOutcomes =
            [(''/news'', skipped (Debug ''skipping /news due to revalidate''))]\<rparr>"
  have pm: "readPrerenderManifest news_world = Inr ?pm"
    by (simp add: news_world_def with_routes_def)
  have pages: "readPagesManifest news_world = Inr []"
    by (simp add: news_world_def with_routes_def example_world_def)
  have m: "codegenPublicDirectory example_utils news_world ''src'' ''dst'' ''site'' ''project''
             = Inr ?m"
    by (simp add: codegen_of_prepare[OF prepare_news_world] copyRoute_cases)
  have r: "revalidates (initialRevalidateSeconds ?route)" by simp
  from revalidating_routes[OF pm _ r, of "''/news''" example_utils
      "[''use of revalidate null'']" "static_result\<lparr>wantsBackend := True\<rparr>"
      "''src''" "''dst''" "''site''" "''project''" ?m "[]"]
  show ?thesis
    using classify_news_world m pages by (simp add: keys_def template_def plain_page_def)
qed

text \<open>
  C4 as the claim states it fails: the same page, listed in the pages manifest as
  literal HTML, is copied.
\<close>

theorem revalidating_routes_counterexample:
  "readPrerenderManifest news_html_world =
     Inr \<lparr>routes = [(''/news'', plain_page\<lparr>initialRevalidateSeconds := RevalidateSeconds 60\<rparr>)],
          dynamicRoutes = Some []\<rparr> \<and>
   revalidates (initialRevalidateSeconds
     (plain_page\<lparr>initialRevalidateSeconds := RevalidateSeconds 60\<rparr>)) \<and>
   codegenPublicDirectory example_utils news_html_world ''src'' ''dst'' ''site'' ''project'' =
     Inr \<lparr>treeCopies = [(''src/.next/static'', ''dst/_next/static'')],
          routeOutcomes =
            [(''/news'', page_copy ''src/.next/server/pages/news.html'' ''dst/news.html'')]\<rparr>"
  by (simp add: codegen_of_prepare[OF prepare_news_html_world] copy_news_html)
     (simp add: news_html_world_def news_world_def with_routes_def)

text \<open>
  Claim C5, as the code has it. Let the i18n configuration have domains, let \<open>d\<close> be the
  first domain mapping whose domain is one of the site's, and let the path start with a
  configured locale. Then \<open>d\<close> is the mapping the closure uses, and:
  a route whose locale is neither in the locale list of \<open>d\<close> nor the default locale of
  \<open>d\<close> is not copied at all;
  whatever happens, the closure copies nothing but the page to
  \<open>I18N_ROOT/locale/basePath/...\<close> under the locale root when \<open>d\<close> lists more than one
  locale, the page to \<open>basePath/...\<close> at the output root when the locale is the default
  locale of \<open>d\<close>, and the data file to \<open>basePath/dataRoute\<close> when the route has a
  \<open>dataRoute\<close> and is not rendered by an app route (the page destinations take the
  \<^verbatim>\<open>.html\<close> of the source file when it was found through that extension, and a
  destination that \<open>join\<close> returns empty is falsy and gets no copy);
  when the locale is admitted, no other check skips the route, the artifact is found and
  no \<^verbatim>\<open>mkdir\<close> or \<^verbatim>\<open>copyFile\<close> fails, the closure makes exactly these copies, in
  this order.
  So the page of a locale other than the default locale of \<open>d\<close> is placed under the
  locale root if \<open>d\<close> lists several locales and nowhere if it lists one or none; the
  page of the default locale is placed at the output root, and under the locale root as
  well if \<open>d\<close> lists several locales; the data file goes to \<open>basePath/dataRoute\<close>
  whatever the locale.
\<close>

theorem locale_placement:
  assumes "prepareMaterializer u w srcDir dstDir ctxSite ctxProject = Inr (trees, c, toCopy)"
    and "getConfig u w = Inr cfg" and "cfg_i18n cfg = Some i" and "domains i = Some ds"
    and "getAllSiteDomains w ctxProject ctxSite = Inr siteDomains"
    and "find (\<lambda>d. domain d \<in> set siteDomains) ds = Some d"
    and "sourcePartsOf path = locale # rest" and "locale \<in> set (locales i)"
  shows "matchingI18nDomain c = Some d \<and>
         (d_locales d = Some ls \<and> locale \<notin> set ls \<and> locale \<noteq> d_defaultLocale d \<longrightarrow>
            copied (copyRoute u w c (path, route)) = []) \<and>
         (let parts = (if rest \<noteq> [] then rest else [''index'']);
              underLocaleRoot = join u ([dstDir, I18N_ROOT u, locale, basePath cfg] @ parts);
              atOutputRoot = join u ([dstDir, basePath cfg] @ parts);
              several = (1 < length (case d_locales d of None \<Rightarrow> [] | Some listed \<Rightarrow> listed));
              sourcePath = sourcePathOf u c path route;
              html = (\<not> fileExistsSync w sourcePath \<and> fileExistsSync w (sourcePath @ ''.html''));
              body = (appPathRouteOf c route \<noteq> None \<and>
                      basename u (template (appPathRouteOf c route)) = ''route'' \<and>
                      fileExistsSync w (sourcePath @ ''.body''));
              src = (if html then sourcePath @ ''.html''
                     else if body then sourcePath @ ''.body'' else sourcePath);
              ext = (if html then ''.html'' else []);
              copies =
                (if several \<and> underLocaleRoot \<noteq> []
                 then [(Page, src, underLocaleRoot @ ext)] else []) @
                (if locale = d_defaultLocale d \<and> atOutputRoot \<noteq> []
                 then [(Page, src, atOutputRoot @ ext)] else []) @
                (if truthy (dataRoute route) \<and> appPathRouteOf c route = None
                 then [(Data,
                        join u [contentDistOf u c route,
                                join u (sourcePartsOrIndex path) @ ''.json''],
                        join u [dstDir, basePath cfg, template (dataRoute route)])]
                 else [])
          in
          set (copied (copyRoute u w c (path, route))) \<subseteq> set copies \<and>
          (\<not> revalidates (initialRevalidateSeconds route) \<and>
           \<not> list_ex (\<lambda>it. matches u path it) (pathsUsingsFeaturesNotSupportedByHosting c) \<and>
           \<not> list_ex (\<lambda>it. path = it) (staticRoutesUsingServerActions c) \<and>
           (locale = d_defaultLocale d \<or>
            (case d_locales d of None \<Rightarrow> True | Some listed \<Rightarrow> locale \<in> set listed)) \<and>
           (html \<longrightarrow> path \<notin> set (pprRoutes c)) \<and>
           (html \<or> body \<or> pathExistsSync w sourcePath) \<and>
           (\<forall>(kind, from, to) \<in> set copies.
              mkdir w (dirname u to) = None \<and> copyFile w from to = None) \<longrightarrow>
             copyRoute u w c (path, route) =
               \<lparr>route_log = [], copied = copies, rejected = None\<rparr>))"
proof -
  let ?parts = "if rest \<noteq> [] then rest else [''index'']"
  let ?L = "join u ([dstDir, I18N_ROOT u, locale, basePath cfg] @ ?parts)"
  let ?D = "join u ([dstDir, basePath cfg] @ ?parts)"
  let ?several = "1 < length (case d_locales d of None \<Rightarrow> [] | Some listed \<Rightarrow> listed)"
  let ?S = "sourcePathOf u c path route"
  let ?html = "\<not> fileExistsSync w ?S \<and> fileExistsSync w (?S @ ''.html'')"
  let ?body = "appPathRouteOf c route \<noteq> None \<and>
               basename u (template (appPathRouteOf c route)) = ''route'' \<and>
               fileExistsSync w (?S @ ''.body'')"
  let ?src = "if ?html then ?S @ ''.html'' else if ?body then ?S @ ''.body'' else ?S"
  let ?ext = "if ?html then ''.html'' else []"
  let ?data = "if truthy (dataRoute route) \<and> appPathRouteOf c route = None
               then [(Data,
                      join u [contentDistOf u c route,
                              join u (sourcePartsOrIndex path) @ ''.json''],
                      join u [dstDir, basePath cfg, template (dataRoute route)])]
               else []"
  let ?copies =
    "(if ?several \<and> ?L \<noteq> [] then [(Page, ?src, ?L @ ?ext)] else []) @
     (if locale = d_defaultLocale d \<and> ?D \<noteq> [] then [(Page, ?src, ?D @ ?ext)] else []) @
     ?data"
  from prepareMaterializer_Inr[OF assms(1)] assms(2-6)
  have m: "matchingI18nDomain c = Some d" and i: "c_i18n c = Some i"
    and b: "c_basePath c = basePath cfg" "destDir c = dstDir"
    and sl: "singleLocaleDomain c =
               (length
                  (case matchingI18nDomain c of
                     Some d \<Rightarrow> (case d_locales d of None \<Rightarrow> [] | Some ls \<Rightarrow> ls)
                   | None \<Rightarrow> locales i) \<le> 1)"
    by (auto simp: await_def)
  have single: "singleLocaleDomain c = (\<not> ?several)"
    unfolding sl m by (simp add: not_less)
  note l = locale_of_path[OF i assms(7,8)]
  have inc: "includeOnThisDomain c path =
               (locale = d_defaultLocale d \<or>
                (case d_locales d of None \<Rightarrow> True | Some listed \<Rightarrow> locale \<in> set listed))"
    by (auto simp: includeOnThisDomain_def l m)
  have dfl: "defaultDestPath u c path = (if locale = d_defaultLocale d then Some ?D else None)"
    by (auto simp: defaultDestPath_def isDefaultLocale_def l m b)
  have loc: "localizedDestPath u c path = (if ?several then Some ?L else None)"
    by (simp add: localizedDestPath_def l b single)
  have h: "\<And>cond s (x :: string) e.
             (if truthy (if cond then Some s else None)
              then [(Page, x, template (if cond then Some s else None) @ e)] else []) =
             (if cond \<and> s \<noteq> [] then [(Page, x, s @ e)] else [])"
    by (simp add: truthy_def template_def)
  have c: "?copies =
           (if truthy (localizedDestPath u c path)
            then [(Page, ?src, template (localizedDestPath u c path) @ ?ext)] else []) @
           (if truthy (defaultDestPath u c path)
            then [(Page, ?src, template (defaultDestPath u c path) @ ?ext)] else []) @
           (if truthy (dataRoute route) \<and> appPathRouteOf c route = None
            then [(Data,
                   join u [contentDistOf u c route, join u (sourcePartsOrIndex path) @ ''.json''],
                   join u [destDir c, c_basePath c, template (dataRoute route)])]
            else [])"
    unfolding loc dfl b h by (rule refl)
  have g: "\<And>p q r (x :: artifact \<times> string \<times> string) y z.
             set ((if p then [x] else []) @ (if q then [y] else []) @ (if r then [z] else [])) =
             (if p then {x} else {}) \<union> (if q then {y} else {}) \<union> (if r then {z} else {})"
    by auto
  have s: "set ?copies =
           (if truthy (localizedDestPath u c path)
            then {(Page, ?src, template (localizedDestPath u c path) @ ?ext)} else {}) \<union>
           (if truthy (defaultDestPath u c path)
            then {(Page, ?src, template (defaultDestPath u c path) @ ?ext)} else {}) \<union>
           (if truthy (dataRoute route) \<and> appPathRouteOf c route = None
            then {(Data,
                   join u [contentDistOf u c route, join u (sourcePartsOrIndex path) @ ''.json''],
                   join u [destDir c, c_basePath c, template (dataRoute route)])}
            else {})"
    unfolding c by (rule g)
  have 1: "d_locales d = Some ls \<and> locale \<notin> set ls \<and> locale \<noteq> d_defaultLocale d \<longrightarrow>
            copied (copyRoute u w c (path, route)) = []"
    using copyRoute_excluded[of c path u w route] by (auto simp: inc)
  have 2: "set (copied (copyRoute u w c (path, route))) \<subseteq> set ?copies"
    unfolding s by (rule copyRoute_copies) (rule refl)+
  have 3: "copyRoute u w c (path, route) =
             \<lparr>route_log = [], copied = ?copies, rejected = None\<rparr>"
    if a: "\<not> revalidates (initialRevalidateSeconds route) \<and>
           \<not> list_ex (\<lambda>it. matches u path it) (pathsUsingsFeaturesNotSupportedByHosting c) \<and>
           \<not> list_ex (\<lambda>it. path = it) (staticRoutesUsingServerActions c) \<and>
           (locale = d_defaultLocale d \<or>
            (case d_locales d of None \<Rightarrow> True | Some listed \<Rightarrow> locale \<in> set listed)) \<and>
           (?html \<longrightarrow> path \<notin> set (pprRoutes c)) \<and>
           (?html \<or> ?body \<or> pathExistsSync w ?S) \<and>
           (\<forall>(kind, from, to) \<in> set ?copies.
              mkdir w (dirname u to) = None \<and> copyFile w from to = None)"
  proof (rule copyRoute_done[where html = ?html and body = ?body and src = ?src and ext = ?ext])
    show "\<not> revalidates (initialRevalidateSeconds route)" using a by blast
    show "\<not> list_ex (\<lambda>it. matches u path it) (pathsUsingsFeaturesNotSupportedByHosting c)"
      using a by blast
    show "\<not> list_ex (\<lambda>it. path = it) (staticRoutesUsingServerActions c)" using a by blast
    show "includeOnThisDomain c path" unfolding inc using a by blast
    show "?html \<longrightarrow> path \<notin> set (pprRoutes c)" using a by blast
    show "?html \<or> ?body \<or> pathExistsSync w ?S" using a by blast
    show "?copies =
           (if truthy (localizedDestPath u c path)
            then [(Page, ?src, template (localizedDestPath u c path) @ ?ext)] else []) @
           (if truthy (defaultDestPath u c path)
            then [(Page, ?src, template (defaultDestPath u c path) @ ?ext)] else []) @
           (if truthy (dataRoute route) \<and> appPathRouteOf c route = None
            then [(Data,
                   join u [contentDistOf u c route, join u (sourcePartsOrIndex path) @ ''.json''],
                   join u [destDir c, c_basePath c, template (dataRoute route)])]
            else [])"
      by (rule c)
    show "\<forall>(kind, from, to) \<in> set ?copies.
              mkdir w (dirname u to) = None \<and> copyFile w from to = None"
      using a by blast
  qed (rule refl)+
  from m 1 2 3 show ?thesis
    unfolding Let_def by blast
qed

text \<open>
  C5 on the domain \<^verbatim>\<open>a.com\<close> with the locales \<^verbatim>\<open>en\<close> (default) and \<^verbatim>\<open>fr\<close>, the site being
  configured for \<^verbatim>\<open>de\<close> as well: the German page is skipped, the French page goes under
  the locale root and its data file to its \<open>dataRoute\<close>, the English page goes under the
  locale root and to the output root.
\<close>

theorem locale_placement_witness:
  "matchingI18nDomain english_french_captured =
     Some \<lparr>domain = ''a.com'', d_defaultLocale = ''en'', d_locales = Some [''en'', ''fr'']\<rparr> \<and>
   copied (copyRoute example_utils english_french_world english_french_captured
     (''/de/about'', plain_page)) = [] \<and>
   copyRoute example_utils english_french_world english_french_captured
     (''/fr/about'', page_with_data ''/_next/data/build/fr/about.json'') =
   \<lparr>route_log = [],
    copied = [(Page, ''src/.next/server/pages/fr/about.html'', ''dst/i18n_root/fr/about.html''),
              (Data, ''src/.next/server/pages/fr/about.json'',
               ''dst/_next/data/build/fr/about.json'')],
    rejected = None\<rparr> \<and>
   copyRoute example_utils english_french_world english_french_captured
     (''/en/about'', plain_page) =
   \<lparr>route_log = [],
    copied = [(Page, ''src/.next/server/pages/en/about.html'', ''dst/i18n_root/en/about.html''),
              (Page, ''src/.next/server/pages/en/about.html'', ''dst/about.html'')],
    rejected = None\<rparr>"
proof -
  let ?d = "\<lparr>domain = ''a.com'', d_defaultLocale = ''en'', d_locales = Some [''en'', ''fr'']\<rparr>"
  let ?fr = "page_with_data ''/_next/data/build/fr/about.json''"
  have i: "cfg_i18n \<lparr>distDir = ''.next'', cfg_trailingSlash = False, basePath = ''/'',
          cfg_i18n = Some english_french\<rparr> = Some english_french" by simp
  have ds: "domains english_french = Some [?d]"
    by (simp add: english_french_def)
  have sd: "getAllSiteDomains english_french_world ''project'' ''site'' = Inr [''a.com'']"
    by (simp add: english_french_world_def with_i18n_def with_routes_def example_world_def)
  have f: "find (\<lambda>d. domain d \<in> set [''a.com'']) [?d] = Some ?d" by simp
  have parts: "sourcePartsOf ''/de/about'' = [''de'', ''about'']"
    "sourcePartsOf ''/fr/about'' = [''fr'', ''about'']"
    "sourcePartsOf ''/en/about'' = [''en'', ''about'']"
    by (simp_all add: sourcePartsOf_def)
  have ls: "''de'' \<in> set (locales english_french)" "''fr'' \<in> set (locales english_french)"
    "''en'' \<in> set (locales english_french)"
    by (simp_all add: english_french_def)
  have sp: "sourcePathOf example_utils english_french_captured ''/fr/about'' ?fr =
              ''src/.next/server/pages/fr/about''"
    "sourcePathOf example_utils english_french_captured ''/en/about'' plain_page =
              ''src/.next/server/pages/en/about''"
    "contentDistOf example_utils english_french_captured ?fr = ''src/.next/server/pages''"
    "appPathRouteOf english_french_captured ?fr = None"
    "appPathRouteOf english_french_captured plain_page = None"
    "sourcePartsOrIndex ''/fr/about'' = [''fr'', ''about'']"
    by (simp_all add: sourcePathOf_def contentDistOf_def appPathRouteOf_def
        sourcePartsOrIndex_def sourcePartsOf_def truthy_def page_with_data_def plain_page_def
        english_french_captured_def example_captured_def example_utils_def join_slash_def)
  have files: "fileExistsSync english_french_world = (\<lambda>p. endsWith p ''.html'')"
    "pathExistsSync english_french_world = (\<lambda>p. False)"
    "mkdir english_french_world = (\<lambda>p. None)"
    "copyFile english_french_world = (\<lambda>a b. None)"
    by (simp_all add: english_french_world_def with_i18n_def with_routes_def example_world_def)
  have cap: "pathsUsingsFeaturesNotSupportedByHosting english_french_captured = []"
    "staticRoutesUsingServerActions english_french_captured = []"
    "pprRoutes english_french_captured = []"
    by (simp_all add: english_french_captured_def example_captured_def)
  have pages: "dataRoute ?fr = Some ''/_next/data/build/fr/about.json''"
    "dataRoute plain_page = None"
    "initialRevalidateSeconds ?fr = RevalidateFalse"
    "initialRevalidateSeconds plain_page = RevalidateFalse"
    by (simp_all add: page_with_data_def plain_page_def)
  have jj: "join example_utils = join_slash" "I18N_ROOT example_utils = ''i18n_root''"
    by (simp_all add: example_utils_def)
  note t = locale_placement[OF prepare_english_french_world config_english_french_world
      i ds sd f]
  from t[OF parts(1) ls(1), of "[''en'', ''fr'']" plain_page]
  have m: "matchingI18nDomain english_french_captured = Some ?d"
    and de: "copied (copyRoute example_utils english_french_world english_french_captured
               (''/de/about'', plain_page)) = []"
    by simp_all
  from t[OF parts(2) ls(2), of "[''en'', ''fr'']" ?fr]
  have fr: "copyRoute example_utils english_french_world english_french_captured
              (''/fr/about'', ?fr) =
            \<lparr>route_log = [],
             copied = [(Page, ''src/.next/server/pages/fr/about.html'',
                        ''dst/i18n_root/fr/about.html''),
                       (Data, ''src/.next/server/pages/fr/about.json'',
                        ''dst/_next/data/build/fr/about.json'')],
             rejected = None\<rparr>"
    by (simp add: Let_def sp files cap pages jj endsWith_def truthy_def template_def
        join_slash_def)
  from t[OF parts(3) ls(3), of "[''en'', ''fr'']" plain_page]
  have en: "copyRoute example_utils english_french_world english_french_captured
              (''/en/about'', plain_page) =
            \<lparr>route_log = [],
             copied = [(Page, ''src/.next/server/pages/en/about.html'',
                        ''dst/i18n_root/en/about.html''),
                       (Page, ''src/.next/server/pages/en/about.html'', ''dst/about.html'')],
             rejected = None\<rparr>"
    by (simp add: Let_def sp files cap pages jj endsWith_def truthy_def template_def
        join_slash_def)
  from m de fr en show ?thesis
    by (intro conjI)
qed

text \<open>
  C5 as the claim states it fails, on a domain whose default locale is \<^verbatim>\<open>nl\<close> and whose
  locale list is \<^verbatim>\<open>be\<close> alone. The page of \<^verbatim>\<open>nl\<close>, which is not in the list, is copied.
  The route of \<^verbatim>\<open>be\<close>, which is in the list and not the default, gets no page at all, and
  its data file goes to its \<open>dataRoute\<close> under the output root, not under the locale
  root.
\<close>

theorem locale_placement_counterexample:
  "domains dutch =
     Some [\<lparr>domain = ''a.com'', d_defaultLocale = ''nl'', d_locales = Some [''be'']\<rparr>] \<and>
   getAllSiteDomains dutch_world ''project'' ''site'' = Inr [''a.com''] \<and>
   locales dutch = [''nl'', ''be''] \<and>
   I18N_ROOT example_utils = ''i18n_root'' \<and>
   codegenPublicDirectory example_utils dutch_world ''src'' ''dst'' ''site'' ''project'' =
     Inr \<lparr>treeCopies = [(''src/.next/static'', ''dst/_next/static'')],
          routeOutcomes =
            [(''/nl/about'',
              page_copy ''src/.next/server/pages/nl/about.html'' ''dst/about.html''),
             (''/be/about'',
              \<lparr>route_log = [],
               copied = [(Data, ''src/.next/server/pages/be/about.json'',
                          ''dst/_next/data/build/be/about.json'')],
               rejected = None\<rparr>)]\<rparr>"
  by (simp add: codegen_of_prepare[OF prepare_dutch_world] copy_dutch)
     (simp add: dutch_def dutch_world_def with_i18n_def with_routes_def example_world_def
        example_utils_def)

text \<open>
  Claim C6, as the code has it. A route that the app metadata reports as using partial
  prerendering gives a pass that succeeds the reason \<^verbatim>\<open>route with PPR <route>\<close>, and
  \<open>wantsBackend\<close> is true. The materializer knows the route as a PPR route, and skips it
  when it finds the artifact through the added \<^verbatim>\<open>.html\<close> extension (no file at the
  source path itself): the \<^verbatim>\<open>.html\<close> artifact of the route is never copied.
\<close>

theorem ppr_routes:
  assumes "getConfig u w = Inr cfg" and "readAppPathRoutesManifest w = Inr aprm"
    and "getAppMetadataFromMetaFiles w (distDir cfg) (basePath cfg) aprm = Inr (hm, ppr)"
    and "route \<in> set ppr"
  shows "(classify u w = Inr (reasons, result) \<longrightarrow>
            ''route with PPR '' @ route \<in> set reasons \<and> wantsBackend result) \<and>
         (prepareMaterializer u w srcDir dstDir ctxSite ctxProject = Inr (trees, c, toCopy) \<longrightarrow>
            route \<in> set (pprRoutes c) \<and>
            (\<not> fileExistsSync w (sourcePathOf u c route r) \<and>
             fileExistsSync w (sourcePathOf u c route r @ ''.html'') \<longrightarrow>
               copied (copyRoute u w c (route, r)) = []))"
proof (intro conjI impI)
  assume c: "classify u w = Inr (reasons, result)"
  show r: "''route with PPR '' @ route \<in> set reasons"
    using classify_reasons_of(3)[OF c assms] .
  show "wantsBackend result"
    using classify_reasons_of(4)[OF c r] .
next
  assume p: "prepareMaterializer u w srcDir dstDir ctxSite ctxProject = Inr (trees, c, toCopy)"
  from prepareMaterializer_Inr[OF p] assms show k: "route \<in> set (pprRoutes c)"
    by auto
  assume "\<not> fileExistsSync w (sourcePathOf u c route r) \<and>
             fileExistsSync w (sourcePathOf u c route r @ ''.html'')"
  with k show "copied (copyRoute u w c (route, r)) = []"
    by (simp add: copyRoute_ppr)
qed

text \<open>
  C6 on a PPR route whose artifact is \<^verbatim>\<open>dash.html\<close>: the reason is there and nothing is
  copied.
\<close>

theorem ppr_routes_witness:
  "classify example_utils dash_world =
     Inr ([''route with PPR /dash''], static_result\<lparr>wantsBackend := True\<rparr>) \<and>
   ''route with PPR /dash'' \<in> set [''route with PPR /dash''] \<and>
   ''/dash'' \<in> set (pprRoutes dash_captured) \<and>
   fileExistsSync dash_world ''src/.next/server/app/dash.html'' \<and>
   \<not> fileExistsSync dash_world ''src/.next/server/app/dash'' \<and>
   copied (copyRoute example_utils dash_world dash_captured
     (''/dash'', plain_page\<lparr>srcRoute := Some ''/dash''\<rparr>)) = []"
proof -
  let ?cfg = "\<lparr>distDir = ''.next'', cfg_trailingSlash = False, basePath = ''/'',
               cfg_i18n = None\<rparr>"
  let ?r = "plain_page\<lparr>srcRoute := Some ''/dash''\<rparr>"
  have cfg: "getConfig example_utils dash_world = Inr ?cfg"
    by (simp add: getConfig_def await_def dash_world_def with_routes_def example_world_def
        example_utils_def)
  have aprm: "readAppPathRoutesManifest dash_world = Inr [(''/dash/page'', ''/dash'')]"
    by (simp add: dash_world_def)
  have meta: "getAppMetadataFromMetaFiles dash_world (distDir ?cfg) (basePath ?cfg)
                [(''/dash/page'', ''/dash'')] = Inr ([], [''/dash''])"
    by (simp add: dash_world_def)
  have sp: "sourcePathOf example_utils dash_captured ''/dash'' ?r = ''src/.next/server/app/dash''"
    by (simp add: run_copyRoute dash_captured_def)
  have files: "fileExistsSync dash_world ''src/.next/server/app/dash.html''"
    "\<not> fileExistsSync dash_world ''src/.next/server/app/dash''"
    by (simp_all add: dash_world_def with_routes_def example_world_def endsWith_def)
  from ppr_routes[OF cfg aprm meta, of "''/dash''" "[''route with PPR /dash'']"
      "static_result\<lparr>wantsBackend := True\<rparr>" "''src''" "''dst''" "''site''" "''project''"
      "[(''src/.next/static'', ''dst/_next/static'')]" dash_captured
      "[(''/dash'', ?r)]" ?r]
  show ?thesis
    using classify_dash_world prepare_dash_world files by (simp add: sp)
qed

text \<open>
  C6 as the claim states it fails: with a file at the source path itself, the PPR
  route is copied.
\<close>

theorem ppr_routes_counterexample:
  "getAppMetadataFromMetaFiles dash_file_world ''.next'' ''/'' [(''/dash/page'', ''/dash'')] =
     Inr ([], [''/dash'']) \<and>
   readAppPathRoutesManifest dash_file_world = Inr [(''/dash/page'', ''/dash'')] \<and>
   codegenPublicDirectory example_utils dash_file_world ''src'' ''dst'' ''site'' ''project'' =
     Inr \<lparr>treeCopies = [(''src/.next/static'', ''dst/_next/static'')],
          routeOutcomes =
            [(''/dash'', page_copy ''src/.next/server/app/dash'' ''dst/dash'')]\<rparr>"
  by (simp add: codegen_of_prepare[OF prepare_dash_file_world] copy_dash_file)
     (simp add: dash_file_world_def dash_world_def)

text \<open>
  Claim C10. When a path is a key of \<^verbatim>\<open>prerenderManifest.routes\<close> and also a page of the
  pages manifest whose source ends in \<^verbatim>\<open>.html\<close>, the routes to copy hold for that path
  the record made from the pages manifest (no \<open>srcRoute\<close>, no revalidation, empty
  \<open>dataRoute\<close>) and nothing else. So the closure runs on that record: what it does for
  the path does not depend on the entry of the prerender manifest, it does not skip the
  route for revalidation, and it copies no data artifact. When no other check skips the
  route, the page is found through the \<^verbatim>\<open>.html\<close> extension and no copy fails, the page
  is copied to its default destination.
\<close>

theorem pages_manifest_overrides:
  assumes "prepareMaterializer u w srcDir dstDir ctxSite ctxProject = Inr (trees, c, toCopy)"
    and "readPrerenderManifest w = Inr pm" and "readPagesManifest w = Inr pages"
    and "distinct (keys (routes pm))" and "path \<in> set (keys (routes pm))"
    and "(path, src) \<in> set pages" and "endsWith src ''.html''"
  shows "((path, route) \<in> set toCopy \<longleftrightarrow> route = staticPage) \<and>
         srcRoute staticPage = None \<and>
         initialRevalidateSeconds staticPage = RevalidateFalse \<and>
         dataRoute staticPage = Some [] \<and>
         (codegenPublicDirectory u w srcDir dstDir ctxSite ctxProject = Inr m \<longrightarrow>
            ((path, oc) \<in> set (routeOutcomes m) \<longleftrightarrow>
               oc = copyRoute u w c (path, staticPage))) \<and>
         route_log (copyRoute u w c (path, staticPage)) \<noteq>
           [Debug (''skipping '' @ path @ '' due to revalidate'')] \<and>
         (Data, from, to) \<notin> set (copied (copyRoute u w c (path, staticPage))) \<and>
         (\<not> list_ex (\<lambda>it. matches u path it) (pathsUsingsFeaturesNotSupportedByHosting c) \<and>
          \<not> list_ex (\<lambda>it. path = it) (staticRoutesUsingServerActions c) \<and>
          includeOnThisDomain c path \<and>
          \<not> fileExistsSync w (sourcePathOf u c path staticPage) \<and>
          fileExistsSync w (sourcePathOf u c path staticPage @ ''.html'') \<and>
          path \<notin> set (pprRoutes c) \<and>
          defaultDestPath u c path = Some D \<and> D \<noteq> [] \<and>
          rejected (copyRoute u w c (path, staticPage)) = None \<longrightarrow>
            (Page, sourcePathOf u c path staticPage @ ''.html'', D @ ''.html'') \<in>
              set (copied (copyRoute u w c (path, staticPage))))"
proof -
  from prepareMaterializer_Inr[OF assms(1)] assms(2,3)
  have t: "toCopy = routesToCopy pm pages"
    by auto
  have o: "\<And>r. (path, r) \<in> set toCopy \<longleftrightarrow> r = staticPage"
    unfolding t using routesToCopy_override[OF assms(4,6,7)] .
  have 1: "codegenPublicDirectory u w srcDir dstDir ctxSite ctxProject = Inr m \<longrightarrow>
            ((path, oc) \<in> set (routeOutcomes m) \<longleftrightarrow>
               oc = copyRoute u w c (path, staticPage))"
  proof
    assume "codegenPublicDirectory u w srcDir dstDir ctxSite ctxProject = Inr m"
    from codegenPublicDirectory_Inr[OF this] assms(1)
    have "routeOutcomes m = map (\<lambda>entry. (fst entry, copyRoute u w c entry)) toCopy"
      by auto
    then have "(path, oc) \<in> set (routeOutcomes m) \<longleftrightarrow>
                 (\<exists>r. (path, r) \<in> set toCopy \<and> oc = copyRoute u w c (path, r))"
      by (force simp: image_iff)
    then show "(path, oc) \<in> set (routeOutcomes m) \<longleftrightarrow>
               oc = copyRoute u w c (path, staticPage)"
      by (simp add: o)
  qed
  have 2: "route_log (copyRoute u w c (path, staticPage)) \<noteq>
           [Debug (''skipping '' @ path @ '' due to revalidate'')]"
    by (rule copyRoute_not_revalidate_skip) (simp add: staticPage_def)
  have 3: "(Data, from, to) \<notin> set (copied (copyRoute u w c (path, staticPage)))"
    using copyRoute_data_copy[of "from" to u w c path staticPage]
    by (auto simp: staticPage_def truthy_def)
  have 4: "\<not> list_ex (\<lambda>it. matches u path it) (pathsUsingsFeaturesNotSupportedByHosting c) \<and>
          \<not> list_ex (\<lambda>it. path = it) (staticRoutesUsingServerActions c) \<and>
          includeOnThisDomain c path \<and>
          \<not> fileExistsSync w (sourcePathOf u c path staticPage) \<and>
          fileExistsSync w (sourcePathOf u c path staticPage @ ''.html'') \<and>
          path \<notin> set (pprRoutes c) \<and>
          defaultDestPath u c path = Some D \<and> D \<noteq> [] \<and>
          rejected (copyRoute u w c (path, staticPage)) = None \<longrightarrow>
            (Page, sourcePathOf u c path staticPage @ ''.html'', D @ ''.html'') \<in>
              set (copied (copyRoute u w c (path, staticPage)))"
  proof
    assume a: "\<not> list_ex (\<lambda>it. matches u path it) (pathsUsingsFeaturesNotSupportedByHosting c) \<and>
          \<not> list_ex (\<lambda>it. path = it) (staticRoutesUsingServerActions c) \<and>
          includeOnThisDomain c path \<and>
          \<not> fileExistsSync w (sourcePathOf u c path staticPage) \<and>
          fileExistsSync w (sourcePathOf u c path staticPage @ ''.html'') \<and>
          path \<notin> set (pprRoutes c) \<and>
          defaultDestPath u c path = Some D \<and> D \<noteq> [] \<and>
          rejected (copyRoute u w c (path, staticPage)) = None"
    have n: "\<not> revalidates (initialRevalidateSeconds staticPage)"
      by (simp add: staticPage_def)
    from a show "(Page, sourcePathOf u c path staticPage @ ''.html'', D @ ''.html'') \<in>
              set (copied (copyRoute u w c (path, staticPage)))"
      by (intro copyRoute_html_copy[OF n]) blast+
  qed
  have 5: "srcRoute staticPage = None \<and>
         initialRevalidateSeconds staticPage = RevalidateFalse \<and>
         dataRoute staticPage = Some []"
    by (simp add: staticPage_def)
  from o[of route] 1 2 3 4 5 show ?thesis
    by blast
qed

text \<open>
  C10 on a page that the prerender manifest revalidates every 60 seconds and the pages
  manifest lists as literal HTML: the record of the pages manifest is the one copied
  from, the page is copied and no data file is.
\<close>

theorem pages_manifest_overrides_witness:
  "readPrerenderManifest news_html_world =
     Inr \<lparr>routes = [(''/news'', plain_page\<lparr>initialRevalidateSeconds := RevalidateSeconds 60\<rparr>)],
          dynamicRoutes = Some []\<rparr> \<and>
   readPagesManifest news_html_world = Inr [(''/news'', ''pages/news.html'')] \<and>
   prepareMaterializer example_utils news_html_world ''src'' ''dst'' ''site'' ''project'' =
     Inr ([(''src/.next/static'', ''dst/_next/static'')], example_captured,
          [(''/news'', staticPage)]) \<and>
   copyRoute example_utils news_html_world example_captured (''/news'', staticPage) =
     page_copy ''src/.next/server/pages/news.html'' ''dst/news.html'' \<and>
   (Data, ''src/.next/server/pages/news.json'', ''dst/news.json'') \<notin>
     set (copied (page_copy ''src/.next/server/pages/news.html'' ''dst/news.html'')) \<and>
   (Page, ''src/.next/server/pages/news.html'', ''dst/news.html'') \<in>
     set (copied (copyRoute example_utils news_html_world example_captured
       (''/news'', staticPage)))"
proof -
  let ?pm = "\<lparr>routes = [(''/news'', plain_page\<lparr>initialRevalidateSeconds := RevalidateSeconds 60\<rparr>)],
          dynamicRoutes = Some []\<rparr>"
  have pm: "readPrerenderManifest news_html_world = Inr ?pm"
    by (simp add: news_html_world_def news_world_def with_routes_def)
  have pages: "readPagesManifest news_html_world = Inr [(''/news'', ''pages/news.html'')]"
    by (simp add: news_html_world_def)
  have d: "distinct (keys (routes ?pm))" "''/news'' \<in> set (keys (routes ?pm))"
    by (simp_all add: keys_def)
  have h: "(''/news'', ''pages/news.html'') \<in> set [(''/news'', ''pages/news.html'')]"
    "endsWith ''pages/news.html'' ''.html''"
    by (simp_all add: endsWith_def)
  have sp: "sourcePathOf example_utils example_captured ''/news'' staticPage =
              ''src/.next/server/pages/news''"
    "defaultDestPath example_utils example_captured ''/news'' = Some ''dst/news''"
    "includeOnThisDomain example_captured ''/news''"
    by (simp_all add: run_copyRoute staticPage_def)
  have files: "\<not> fileExistsSync news_html_world ''src/.next/server/pages/news''"
    "fileExistsSync news_html_world ''src/.next/server/pages/news.html''"
    by (simp_all add: news_html_world_def news_world_def with_routes_def example_world_def
        endsWith_def)
  have c: "pathsUsingsFeaturesNotSupportedByHosting example_captured = []"
    "staticRoutesUsingServerActions example_captured = []" "pprRoutes example_captured = []"
    by (simp_all add: example_captured_def)
  from pages_manifest_overrides[OF prepare_news_html_world pm pages d h, of staticPage
      "\<lparr>treeCopies = [], routeOutcomes = []\<rparr>" "page_copy [] []"
      "''src/.next/server/pages/news.json''" "''dst/news.json''" "''dst/news''"]
  show ?thesis
    using pm pages prepare_news_html_world copy_news_html sp files c
    by (simp add: page_copy_def)
qed

end
